theory Spec2Isabelle
  imports Complex_Main "HOL-Library.AList"
begin

section \<open>Errors\<close>

text \<open>
  Exceptions are values. \<open>KeyError\<close>, \<open>ValueError\<close> and \<open>AssertionError\<close> are the
  exceptions that the wrapper constructs itself (\<open>raise KeyError(...)\<close>,
  \<open>raise ValueError(...)\<close>, \<open>assert\<close>); \<open>IndexError\<close>, \<open>AttributeError\<close> and
  \<open>TypeError\<close> are raised by the Python runtime inside wrapper code (\<open>xs[0]\<close> on an
  empty list, a missing attribute, a call with the wrong arguments or an unhashable
  dictionary key, an unpacking of the wrong number of values);
  \<open>Framework\<close> carries an exception raised inside the ML framework, which the wrapper
  never catches. The framework's own exceptions are a type of their own, so that what a
  framework call raises can only reach the caller as \<open>Framework\<close>.
\<close>

type_synonym tf_exception = string

datatype error =
    KeyError string
  | ValueError string
  | AssertionError
  | IndexError
  | AttributeError string
  | TypeError
  | UnpackError
  | Framework string



section \<open>The framework's graph: collections and finalization\<close>

text \<open>
  \<open>tf.Graph\<close> is not part of the repository. The wrapper uses four of its methods,
  \<open>get_all_collection_keys\<close>, \<open>add_to_collection\<close>, \<open>get_collection\<close> and
  \<open>finalize\<close>; they are modelled after the framework's documentation: a collection is
  a list of values stored under a name, \<open>add_to_collection\<close> creates the list or appends
  to it and is refused on a finalized graph, \<open>get_collection\<close> returns the list (the
  empty list for an unknown name).
\<close>

record 'n tf_graph =
  collections :: "string \<rightharpoonup> 'n list"
  finalized :: bool

definition tf_Graph :: "'n tf_graph" where
  "tf_Graph = \<lparr>collections = Map.empty, finalized = False\<rparr>"

definition get_all_collection_keys :: "'n tf_graph \<Rightarrow> string set" where
  "get_all_collection_keys g = dom (collections g)"

definition get_collection :: "'n tf_graph \<Rightarrow> string \<Rightarrow> 'n list" where
  "get_collection g name = (case collections g name of None \<Rightarrow> [] | Some ns \<Rightarrow> ns)"

definition finalized_error :: tf_exception where
  "finalized_error = ''Graph is finalized and cannot be modified.''"

definition add_to_collection ::
  "string \<Rightarrow> 'n \<Rightarrow> 'n tf_graph \<Rightarrow> (tf_exception + unit) \<times> 'n tf_graph" where
  "add_to_collection name v g =
     (if finalized g then (Inl finalized_error, g)
      else (Inr (),
            g\<lparr>collections := (collections g)(name \<mapsto>
                 (case collections g name of None \<Rightarrow> [v] | Some ns \<Rightarrow> ns @ [v]))\<rparr>))"

definition finalize :: "'n tf_graph \<Rightarrow> 'n tf_graph" where
  "finalize g = g\<lparr>finalized := True\<rparr>"

section \<open>Python values holding framework objects\<close>

text \<open>
  \<open>Graph.__getitem__\<close> takes a name or a list (of names or of lists), and
  \<open>session.run\<close> takes a node, \<open>None\<close> or a list and returns values in the same
  shape.
\<close>

datatype key = Name string | Names "key list"

datatype 'x py = Obj 'x | PyNone | PyList "'x py list"

section \<open>class Graph\<close>

text \<open>
  \<open>Graph.__init__\<close> creates the framework graph and a session on it; \<open>'s\<close> is the
  session's state (the values of the variables). \<open>G_context\<close> tells whether the
  graph's \<open>as_default()\<close> context stored in \<open>self._context\<close> is entered.
\<close>

record ('n, 's) Graph =
  G_graph :: "'n tf_graph"
  G_session :: 's
  G_context :: bool

text \<open>
  A call into the framework on the graph of a \<open>Graph\<close>: the graph is left as the call
  leaves it, and an exception of the framework propagates unchanged.
\<close>

definition propagate :: "tf_exception + 'x \<Rightarrow> error + 'x" where
  "propagate r = (case r of Inl x \<Rightarrow> Inl (Framework x) | Inr v \<Rightarrow> Inr v)"

definition on_graph ::
  "('n tf_graph \<Rightarrow> (tf_exception + 'x) \<times> 'n tf_graph) \<Rightarrow>
     ('n, 's) Graph \<Rightarrow> (error + 'x) \<times> ('n, 's) Graph" where
  "on_graph f G = (case f (G_graph G) of (r, g') \<Rightarrow> (propagate r, G\<lparr>G_graph := g'\<rparr>))"

definition Graph_init :: "'s \<Rightarrow> ('n, 's) Graph" where
  "Graph_init s0 = \<lparr>G_graph = tf_Graph, G_session = s0, G_context = False\<rparr>"

definition Graph_contains :: "('n, 's, 'z) Graph_scheme \<Rightarrow> string \<Rightarrow> bool" where
  "Graph_contains G var_name = (collections (G_graph G) var_name \<noteq> None)"

definition already_msg :: "string \<Rightarrow> string" where
  "already_msg var_name = CHR 0x22 # var_name @ CHR 0x22 # '' is already in the graph.''"

definition missing_msg :: "string \<Rightarrow> string" where
  "missing_msg var_name = CHR 0x22 # var_name @ CHR 0x22 # '' does not exist in the graph.''"

definition Graph_setitem ::
  "string \<Rightarrow> 'n \<Rightarrow> ('n, 's) Graph \<Rightarrow> (error + unit) \<times> ('n, 's) Graph" where
  "Graph_setitem var_name tf_node G =
     (if Graph_contains G var_name then (Inl (KeyError (already_msg var_name)), G)
      else on_graph (add_to_collection var_name tf_node) G)"

fun Graph_getitem :: "('n, 's) Graph \<Rightarrow> key \<Rightarrow> error + 'n py"
  and getitem_each :: "('n, 's) Graph \<Rightarrow> key list \<Rightarrow> error + 'n py list" where
  "Graph_getitem G (Names vs) =
     (case getitem_each G vs of Inl e \<Rightarrow> Inl e | Inr rs \<Rightarrow> Inr (PyList rs))"
| "Graph_getitem G (Name v) =
     (if \<not> Graph_contains G v then Inl (KeyError (missing_msg v))
      else (case get_collection (G_graph G) v of
              [] \<Rightarrow> Inl IndexError
            | n # _ \<Rightarrow> Inr (Obj n)))"
| "getitem_each G [] = Inr []"
| "getitem_each G (v # vs) =
     (case Graph_getitem G v of
        Inl e \<Rightarrow> Inl e
      | Inr r \<Rightarrow> (case getitem_each G vs of Inl e \<Rightarrow> Inl e | Inr rs \<Rightarrow> Inr (r # rs)))"

definition GLOBAL_VARIABLES :: "('n, 's) Graph \<Rightarrow> 'n list" where
  "GLOBAL_VARIABLES G = get_collection (G_graph G) ''variables''"

definition TRAINABLE_VARIABLES :: "('n, 's) Graph \<Rightarrow> 'n list" where
  "TRAINABLE_VARIABLES G = get_collection (G_graph G) ''trainable_variables''"

text \<open>Each registered key holds exactly one node.\<close>

definition one_node_per_key :: "('n, 's) Graph \<Rightarrow> bool" where
  "one_node_per_key G =
     (\<forall>k. case collections (G_graph G) k of None \<Rightarrow> True | Some ns \<Rightarrow> length ns = 1)"


section \<open>The framework as a parameter\<close>

text \<open>
  Everything else the wrapper asks of the framework is a parameter of the model. A
  framework call that creates a graph object (a placeholder, an assign op, an optimizer's
  minimize op, a distribution, \<dots>) is a value of \<open>tf_call\<close>; \<open>tf_op\<close> executes it on
  the graph, returns the object or raises, and may change the graph (creating a variable
  adds it to the framework's collections). \<open>session_run\<close> is \<open>Session.run\<close>: it reads
  the graph, returns the fetched values in the shape of the fetches, and changes only the
  session. \<open>node_name\<close> is the \<open>name\<close> attribute of a variable.
\<close>

datatype dtype = tf_float32 | tf_int32

datatype activation_fn = tf_nn_softmax

datatype optimizer = AdamOptimizer real

datatype 'n tf_call =
    tf_placeholder dtype "nat option list" "string option"
  | tf_placeholder_with_default 'n
  | tf_assign 'n 'n
  | tf_variables_initializer "'n list"
  | tf_gather 'n 'n
  | tf_squeeze 'n
  | tf_log 'n
  | tf_neg 'n
  | tf_mul 'n 'n
  | tf_sub 'n 'n
  | tf_rmul real 'n
  | tf_Normal 'n 'n
  | tf_sample 'n "nat list"
  | tf_clip_by_value 'n real real
  | tf_log_prob 'n 'n
  | tf_entropy 'n
  | tf_minimize optimizer 'n

text \<open>
  A numpy array is its shape and its elements in row-major order.
\<close>

record 'a ndarray =
  nd_shape :: "nat list"
  nd_elems :: "'a list"

definition expand_dims0 :: "'a ndarray \<Rightarrow> 'a ndarray" where
  "expand_dims0 a = a\<lparr>nd_shape := 1 # nd_shape a\<rparr>"


type_synonym ('n, 'a) feed_dict = "'n \<rightharpoonup> 'a ndarray"

record ('n, 's, 'a) framework =
  tf_op :: "'n tf_call \<Rightarrow> 'n tf_graph \<Rightarrow> (tf_exception + 'n) \<times> 'n tf_graph"
  session_run ::
    "'n py \<Rightarrow> ('n, 'a) feed_dict \<Rightarrow> 'n tf_graph \<Rightarrow> 's \<Rightarrow>
       (tf_exception + 'a ndarray py) \<times> 's"
  node_name :: "'n \<Rightarrow> string"

section \<open>Statements that may raise, on a state\<close>

text \<open>
  A statement takes the state and returns the state it leaves behind together with its
  value or the exception it raised; what was mutated before a \<open>raise\<close> stays mutated.
\<close>

definition andthen ::
  "('m \<Rightarrow> (error + 'x) \<times> 'm) \<Rightarrow> ('x \<Rightarrow> 'm \<Rightarrow> (error + 'y) \<times> 'm) \<Rightarrow> 'm \<Rightarrow> (error + 'y) \<times> 'm" where
  "andthen f k m = (case f m of (Inl e, m') \<Rightarrow> (Inl e, m') | (Inr x, m') \<Rightarrow> k x m')"

definition return :: "'x \<Rightarrow> 'm \<Rightarrow> (error + 'x) \<times> 'm" where
  "return x m = (Inr x, m)"

definition raise :: "error \<Rightarrow> 'm \<Rightarrow> (error + 'x) \<times> 'm" where
  "raise e m = (Inl e, m)"

definition pure :: "error + 'x \<Rightarrow> 'm \<Rightarrow> (error + 'x) \<times> 'm" where
  "pure r m = (r, m)"

section \<open>class Graph, continued\<close>

definition Graph_enter :: "('n, 's) Graph \<Rightarrow> ('n, 's) Graph" where
  "Graph_enter G = G\<lparr>G_context := True\<rparr>"

definition Graph_call ::
  "('n, 's, 'a) framework \<Rightarrow> 'n py \<Rightarrow> ('n, 'a) feed_dict \<Rightarrow> ('n, 's) Graph \<Rightarrow>
     (error + 'a ndarray py) \<times> ('n, 's) Graph" where
  "Graph_call fw ops feed_dict G =
     (case session_run fw ops feed_dict (G_graph G) (G_session G) of
        (r, s') \<Rightarrow> (propagate r, G\<lparr>G_session := s'\<rparr>))"

definition Graph_exit ::
  "('n, 's, 'a) framework \<Rightarrow> ('n, 's) Graph \<Rightarrow> (error + unit) \<times> ('n, 's) Graph" where
  "Graph_exit fw =
     andthen (\<lambda>G. on_graph (tf_op fw (tf_variables_initializer (GLOBAL_VARIABLES G))) G) (\<lambda>init.
     andthen (Graph_call fw (Obj init) Map.empty) (\<lambda>_ G.
       (Inr (), G\<lparr>G_graph := finalize (G_graph G), G_context := False\<rparr>)))"

section \<open>class Model\<close>

text \<open>
  The environment is read through \<open>observation_space.shape\<close>, \<open>action_space.n\<close>,
  \<open>action_space.shape\<close>, \<open>action_space.low\<close> and \<open>action_space.high\<close>; an attribute
  that the environment's space does not have is \<open>None\<close> here.
\<close>

record env =
  observation_space_shape :: "nat list option"
  action_space_n :: "nat option"
  action_space_shape :: "nat list option"
  action_space_low :: "real list option"
  action_space_high :: "real list option"

text \<open>
  The attributes of a \<open>Model\<close> object. \<open>_loss\<close>, \<open>_optimizer\<close> and \<open>_optimizer_op\<close>
  are set to Python's \<open>None\<close> by \<open>__init__\<close>; \<open>input_node\<close> exists once \<open>add_input\<close>
  has run; \<open>state\<close>, \<open>Return\<close>, \<open>action\<close>, \<open>mu\<close>, \<open>sigma\<close> and \<open>normal_dist\<close> are
  attributes that the policy-gradient factory adds.
\<close>

record ('n, 's) Model =
  M_env :: env
  M_G :: "('n, 's) Graph"
  M_loss :: "'n option"
  M_optimizer :: "optimizer option"
  M_optimizer_op :: "'n option"
  M_input_node :: "'n option"
  M_state :: "'n option"
  M_Return :: "'n option"
  M_action :: "'n option"
  M_mu :: "'n option"
  M_sigma :: "'n option"
  M_normal_dist :: "'n option"

text \<open>
  The closure \<open>build_update_feed_dict\<close> takes the model and the arguments of \<open>update\<close>.
  A record cannot hold a function on its own type, so the closure is given the model
  without the attribute that holds the closure itself.
\<close>

type_synonym ('n, 's, 'a) update_feed =
  "'a ndarray list \<Rightarrow> ('n, 's) Model \<Rightarrow> (error + ('n, 'a) feed_dict) \<times> ('n, 's) Model"

record ('n, 's, 'a) Built_Model = "('n, 's) Model" +
  build_update_feed_dict :: "('n, 's, 'a) update_feed"

definition on_G ::
  "(('n, 's) Graph \<Rightarrow> (error + 'x) \<times> ('n, 's) Graph) \<Rightarrow>
     ('n, 's, 'z) Model_scheme \<Rightarrow> (error + 'x) \<times> ('n, 's, 'z) Model_scheme" where
  "on_G f m = (case f (M_G m) of (r, G') \<Rightarrow> (r, m\<lparr>M_G := G'\<rparr>))"

definition tf ::
  "('n, 's, 'a) framework \<Rightarrow> 'n tf_call \<Rightarrow>
     ('n, 's, 'z) Model_scheme \<Rightarrow> (error + 'n) \<times> ('n, 's, 'z) Model_scheme" where
  "tf fw c = on_G (on_graph (tf_op fw c))"

text \<open>\<open>obj.attr[0]\<close>\<close>

definition first_of :: "string \<Rightarrow> 'x list option \<Rightarrow> error + 'x" where
  "first_of attr v =
     (case v of None \<Rightarrow> Inl (AttributeError attr)
      | Some [] \<Rightarrow> Inl IndexError
      | Some (x # _) \<Rightarrow> Inr x)"

definition get_env_action_space_dimension :: "('n, 's, 'z) Model_scheme \<Rightarrow> error + nat" where
  "get_env_action_space_dimension m =
     (case action_space_n (M_env m) of
        Some n \<Rightarrow> Inr n
      | None \<Rightarrow> first_of ''shape'' (action_space_shape (M_env m)))"

definition weights :: "('n, 's, 'z) Model_scheme \<Rightarrow> 'n list" where
  "weights m = TRAINABLE_VARIABLES (M_G m)"

definition update ::
  "('n, 's, 'a) framework \<Rightarrow> 'a ndarray list \<Rightarrow>
     ('n, 's, 'a) Built_Model \<Rightarrow> (error + 'a ndarray py) \<times> ('n, 's, 'a) Built_Model" where
  "update fw args =
     andthen (\<lambda>m. pure (case M_optimizer_op m of None \<Rightarrow> Inl AssertionError
                                                 | Some _ \<Rightarrow> Inr ()) m) (\<lambda>_.
     andthen (\<lambda>m. case build_update_feed_dict m args (Model.truncate m) of
                     (r, c) \<Rightarrow> (r, Model.extend c (Model.more m))) (\<lambda>feed_dict.
     andthen (\<lambda>m. on_G (Graph_call fw
                (PyList [case M_optimizer_op m of None \<Rightarrow> PyNone | Some op \<Rightarrow> Obj op,
                         case M_loss m of None \<Rightarrow> PyNone | Some l \<Rightarrow> Obj l])
                feed_dict) m) (\<lambda>r.
     pure (case r of PyList [_, loss] \<Rightarrow> Inr loss | _ \<Rightarrow> Inl UnpackError))))"

definition weights_feed_dict ::
  "('n, 's) Graph \<Rightarrow> ('n, 'a) feed_dict \<Rightarrow> (string \<times> 'a ndarray) list \<Rightarrow>
     error + ('n, 'a) feed_dict" where
  "weights_feed_dict G d items =
     (fold (\<lambda>(n, w) acc.
        case acc of
          Inl e \<Rightarrow> Inl e
        | Inr d \<Rightarrow> (case Graph_getitem G (Name (''weight_input_var:'' @ n)) of
                      Inl e \<Rightarrow> Inl e
                    | Inr (Obj k) \<Rightarrow> Inr (d(k \<mapsto> w))
                    | Inr _ \<Rightarrow> Inl TypeError)) items (Inr d))"

text \<open>
  The setter of the property \<open>weights\<close>; the dictionary \<open>weights\<close> is the list of its
  items, in the order of iteration.
\<close>

definition weights_setter ::
  "('n, 's, 'a) framework \<Rightarrow> (string \<times> 'a ndarray) list \<Rightarrow>
     ('n, 's, 'z) Model_scheme \<Rightarrow> (error + unit) \<times> ('n, 's, 'z) Model_scheme" where
  "weights_setter fw new_weights =
     andthen (\<lambda>m. pure (weights_feed_dict (M_G m) Map.empty new_weights) m) (\<lambda>feed_dict.
     andthen (\<lambda>m. pure (getitem_each (M_G m)
                          (map (\<lambda>n. Name (''set_weight_op:'' @ n)) (map fst new_weights))) m) (\<lambda>ops.
     andthen (on_G (Graph_call fw (PyList ops) feed_dict)) (\<lambda>_.
     return ())))"

definition get_weight_names :: "('n, 's, 'a) framework \<Rightarrow> ('n, 's, 'z) Model_scheme \<Rightarrow> string list" where
  "get_weight_names fw m = map (node_name fw) (weights m)"

definition set_weights ::
  "('n, 's, 'a) framework \<Rightarrow> 'a ndarray list \<Rightarrow>
     ('n, 's, 'z) Model_scheme \<Rightarrow> (error + unit) \<times> ('n, 's, 'z) Model_scheme" where
  "set_weights fw vals m =
     weights_setter fw
       (fold (\<lambda>(w, val) weight_dict. AList.update (node_name fw w) val weight_dict)
             (zip (weights m) vals) []) m"

text \<open>The setter of the property \<open>optimizer\<close>.\<close>

definition optimizer_setter ::
  "('n, 's, 'a) framework \<Rightarrow> optimizer \<Rightarrow>
     ('n, 's, 'z) Model_scheme \<Rightarrow> (error + unit) \<times> ('n, 's, 'z) Model_scheme" where
  "optimizer_setter fw opt =
     andthen (\<lambda>m. return () (m\<lparr>M_optimizer := Some opt\<rparr>)) (\<lambda>_.
     andthen (\<lambda>m. pure (case M_loss m of None \<Rightarrow> Inl AssertionError | Some l \<Rightarrow> Inr l) m) (\<lambda>loss.
     andthen (tf fw (tf_minimize opt loss)) (\<lambda>op m.
     return () (m\<lparr>M_optimizer_op := Some op\<rparr>))))"

definition add_input ::
  "('n, 's, 'a) framework \<Rightarrow> string \<Rightarrow> dtype \<Rightarrow> nat option list option \<Rightarrow>
     ('n, 's, 'z) Model_scheme \<Rightarrow> (error + 'n) \<times> ('n, 's, 'z) Model_scheme" where
  "add_input fw name dtype shape =
     andthen (\<lambda>m. pure (case shape of
                          Some sh \<Rightarrow> Inr sh
                        | None \<Rightarrow> (case first_of ''shape'' (observation_space_shape (M_env m)) of
                                     Inl e \<Rightarrow> Inl e
                                   | Inr d \<Rightarrow> Inr [None, Some d])) m) (\<lambda>shape.
     andthen (tf fw (tf_placeholder dtype shape None)) (\<lambda>node.
     andthen (\<lambda>m. return () (m\<lparr>M_input_node := Some node\<rparr>)) (\<lambda>_.
     andthen (on_G (Graph_setitem (''input:'' @ name) node)) (\<lambda>_.
     return node))))"

text \<open>
  \<open>network\<close> is a callable of the framework, called as
  \<open>network(inputs=..., num_outputs=...)\<close>: it builds its layer in the graph.
\<close>

type_synonym 'n network =
  "'n \<Rightarrow> nat \<Rightarrow> 'n tf_graph \<Rightarrow> (tf_exception + 'n) \<times> 'n tf_graph"

definition add_output ::
  "'n network \<Rightarrow> nat option \<Rightarrow> string \<Rightarrow>
     ('n, 's, 'z) Model_scheme \<Rightarrow> (error + 'n) \<times> ('n, 's, 'z) Model_scheme" where
  "add_output network num_outputs name =
     andthen (\<lambda>m. pure (case num_outputs of
                          None \<Rightarrow> get_env_action_space_dimension m
                        | Some k \<Rightarrow> Inr k) m) (\<lambda>num_outputs.
     andthen (\<lambda>m. pure (case M_input_node m of
                          None \<Rightarrow> Inl (AttributeError ''input_node'')
                        | Some i \<Rightarrow> Inr i) m) (\<lambda>inputs.
     andthen (on_G (on_graph (network inputs num_outputs))) (\<lambda>output_node.
     andthen (on_G (Graph_setitem (''output:'' @ name) output_node)) (\<lambda>_.
     return output_node))))"

definition add_output_node ::
  "'n \<Rightarrow> string \<Rightarrow> ('n, 's, 'z) Model_scheme \<Rightarrow> (error + 'n) \<times> ('n, 's, 'z) Model_scheme" where
  "add_output_node node name =
     andthen (on_G (Graph_setitem (''output:'' @ name) node)) (\<lambda>_. return node)"

fun weight_setter_ops_for ::
  "('n, 's, 'a) framework \<Rightarrow> 'n list \<Rightarrow>
     ('n, 's, 'z) Model_scheme \<Rightarrow> (error + unit) \<times> ('n, 's, 'z) Model_scheme" where
  "weight_setter_ops_for fw [] m = return () m"
| "weight_setter_ops_for fw (w # ws) m =
     andthen (tf fw (tf_placeholder_with_default w)) (\<lambda>w_input.
     andthen (on_G (Graph_setitem (''weight_input_var:'' @ node_name fw w) w_input)) (\<lambda>_.
     andthen (tf fw (tf_assign w w_input)) (\<lambda>assign.
     andthen (on_G (Graph_setitem (''set_weight_op:'' @ node_name fw w) assign)) (\<lambda>_.
     weight_setter_ops_for fw ws)))) m"

definition create_weight_setter_ops ::
  "('n, 's, 'a) framework \<Rightarrow>
     ('n, 's, 'z) Model_scheme \<Rightarrow> (error + unit) \<times> ('n, 's, 'z) Model_scheme" where
  "create_weight_setter_ops fw m = weight_setter_ops_for fw (weights m) m"


text \<open>
  \<open>with self.G: body\<close>: the context is entered, the body runs, and \<open>Graph.__exit__\<close>
  runs whether the body raised or not. \<open>__exit__\<close> returns \<open>None\<close>, so an exception of
  the body propagates, unless \<open>__exit__\<close> raises itself.
\<close>

definition with_G ::
  "('n, 's, 'a) framework \<Rightarrow>
     (('n, 's, 'z) Model_scheme \<Rightarrow> (error + unit) \<times> ('n, 's, 'z) Model_scheme) \<Rightarrow>
     ('n, 's, 'z) Model_scheme \<Rightarrow> (error + unit) \<times> ('n, 's, 'z) Model_scheme" where
  "with_G fw body m =
     (case body (m\<lparr>M_G := Graph_enter (M_G m)\<rparr>) of
        (r, m1) \<Rightarrow> (case on_G (Graph_exit fw) m1 of
                      (Inl e, m2) \<Rightarrow> (Inl e, m2)
                    | (Inr _, m2) \<Rightarrow> (r, m2)))"

definition Model_new :: "'s \<Rightarrow> env \<Rightarrow> ('n, 's) Model" where
  "Model_new s0 env =
     \<lparr>M_env = env, M_G = Graph_init s0, M_loss = None, M_optimizer = None,
      M_optimizer_op = None, M_input_node = None, M_state = None, M_Return = None,
      M_action = None, M_mu = None, M_sigma = None, M_normal_dist = None\<rparr>"

text \<open>
  \<open>Model.__init__\<close>; \<open>s0\<close> is the state of the new session. The constructor returns
  the object or raises. The closure is stored by the last statement of the \<open>with\<close>
  body, which runs only when the statements before it did not raise.
\<close>

definition Model_init ::
  "('n, 's, 'a) framework \<Rightarrow> 's \<Rightarrow> env \<Rightarrow>
     (('n, 's) Model \<Rightarrow> (error + unit) \<times> ('n, 's) Model) \<Rightarrow>
     ('n, 's, 'a) update_feed \<Rightarrow> error + ('n, 's, 'a) Built_Model" where
  "Model_init fw s0 env build_graph closure =
     (case with_G fw (andthen build_graph (\<lambda>_. create_weight_setter_ops fw)) (Model_new s0 env) of
        (Inl e, _) \<Rightarrow> Inl e
      | (Inr _, m) \<Rightarrow>
          Inr (Model.extend m (Built_Model.fields closure)))"

section \<open>policy_gradient_model_factory\<close>

text \<open>
  The factory's \<open>network\<close> is a framework callable that also takes \<open>activation_fn\<close>;
  \<open>partial(network, activation_fn=f)\<close> is its application to \<open>f\<close>.
\<close>

definition set_loss :: "'n \<Rightarrow> ('n, 's, 'z) Model_scheme \<Rightarrow> (error + unit) \<times> ('n, 's, 'z) Model_scheme" where
  "set_loss l m = return () (m\<lparr>M_loss := Some l\<rparr>)"

definition set_action :: "'n \<Rightarrow> ('n, 's, 'z) Model_scheme \<Rightarrow> (error + unit) \<times> ('n, 's, 'z) Model_scheme" where
  "set_action a m = return () (m\<lparr>M_action := Some a\<rparr>)"

definition invalid_msg :: "string \<Rightarrow> string" where
  "invalid_msg action_space = action_space @ '' is not a valid action_space''"

definition pg_discrete ::
  "('n, 's, 'a) framework \<Rightarrow> (activation_fn option \<Rightarrow> 'n network) \<Rightarrow> 'n \<Rightarrow>
     ('n, 's) Model \<Rightarrow> (error + unit) \<times> ('n, 's) Model" where
  "pg_discrete fw network Return =
     andthen (add_output (network (Some tf_nn_softmax)) None '''') (\<lambda>output_node.
     andthen (tf fw (tf_placeholder tf_int32 [None] (Some ''action''))) (\<lambda>action.
     andthen (set_action action) (\<lambda>_.
     andthen (tf fw (tf_squeeze output_node)) (\<lambda>squeezed.
     andthen (tf fw (tf_gather squeezed action)) (\<lambda>action_probability.
     andthen (tf fw (tf_log action_probability)) (\<lambda>logp.
     andthen (tf fw (tf_neg logp)) (\<lambda>neg.
     andthen (tf fw (tf_mul neg Return)) set_loss)))))))"

definition pg_continuous ::
  "('n, 's, 'a) framework \<Rightarrow> (activation_fn option \<Rightarrow> 'n network) \<Rightarrow> 'n \<Rightarrow>
     ('n, 's) Model \<Rightarrow> (error + unit) \<times> ('n, 's) Model" where
  "pg_continuous fw network Return =
     andthen (add_output (network None) None ''mean'') (\<lambda>mu.
     andthen (\<lambda>m. return () (m\<lparr>M_mu := Some mu\<rparr>)) (\<lambda>_.
     andthen (add_output (network None) None ''std_dev'') (\<lambda>sigma.
     andthen (\<lambda>m. return () (m\<lparr>M_sigma := Some sigma\<rparr>)) (\<lambda>_.
     andthen (tf fw (tf_Normal mu sigma)) (\<lambda>normal_dist.
     andthen (\<lambda>m. return () (m\<lparr>M_normal_dist := Some normal_dist\<rparr>)) (\<lambda>_.
     andthen (tf fw (tf_sample normal_dist [1])) (\<lambda>sample.
     andthen (tf fw (tf_squeeze sample)) (\<lambda>squeezed.
     andthen (set_action squeezed) (\<lambda>_.
     andthen (\<lambda>m. pure (first_of ''low'' (action_space_low (M_env m))) m) (\<lambda>low.
     andthen (\<lambda>m. pure (first_of ''high'' (action_space_high (M_env m))) m) (\<lambda>high.
     andthen (tf fw (tf_clip_by_value squeezed low high)) (\<lambda>action.
     andthen (set_action action) (\<lambda>_.
     andthen (add_output_node action '''') (\<lambda>_.
     andthen (tf fw (tf_log_prob normal_dist action)) (\<lambda>logp.
     andthen (tf fw (tf_neg logp)) (\<lambda>neg.
     andthen (tf fw (tf_mul neg Return)) (\<lambda>loss.
     andthen (set_loss loss) (\<lambda>_.
     andthen (tf fw (tf_entropy normal_dist)) (\<lambda>entropy.
     andthen (tf fw (tf_rmul (1 / 10) entropy)) (\<lambda>scaled.
     andthen (tf fw (tf_sub loss scaled)) set_loss))))))))))))))))))))"

definition pg_build_graph ::
  "('n, 's, 'a) framework \<Rightarrow> (activation_fn option \<Rightarrow> 'n network) \<Rightarrow> string \<Rightarrow> real \<Rightarrow>
     ('n, 's) Model \<Rightarrow> (error + unit) \<times> ('n, 's) Model" where
  "pg_build_graph fw network action_space learning_rate =
     andthen (add_input fw '''' tf_float32 None) (\<lambda>input_node.
     andthen (\<lambda>m. return () (m\<lparr>M_state := Some input_node\<rparr>)) (\<lambda>_.
     andthen (tf fw (tf_placeholder tf_float32 [None] (Some ''return''))) (\<lambda>Return.
     andthen (\<lambda>m. return () (m\<lparr>M_Return := Some Return\<rparr>)) (\<lambda>_.
     andthen (if action_space = ''discrete'' then pg_discrete fw network Return
              else if action_space = ''continuous'' then pg_continuous fw network Return
              else raise (ValueError (invalid_msg action_space))) (\<lambda>_.
     optimizer_setter fw (AdamOptimizer learning_rate))))))"

text \<open>
  The values fed for \<open>Return\<close> and \<open>action\<close> are the one-element lists \<open>[return_]\<close>
  and \<open>[action]\<close>, which the framework reads as arrays with one more leading axis.
\<close>

definition get_attr :: "string \<Rightarrow> 'x option \<Rightarrow> error + 'x" where
  "get_attr attr v = (case v of None \<Rightarrow> Inl (AttributeError attr) | Some x \<Rightarrow> Inr x)"

definition pg_build_update_feed_dict :: "('n, 's, 'a) update_feed" where
  "pg_build_update_feed_dict args =
     (case args of
        [state, return', action] \<Rightarrow>
          andthen (\<lambda>m. pure (get_attr ''state'' (M_state m)) m) (\<lambda>s.
          andthen (\<lambda>m. pure (get_attr ''Return'' (M_Return m)) m) (\<lambda>r.
          andthen (\<lambda>m. pure (get_attr ''action'' (M_action m)) m) (\<lambda>a.
          return ([s \<mapsto> expand_dims0 state, r \<mapsto> expand_dims0 return',
                   a \<mapsto> expand_dims0 action]))))
      | _ \<Rightarrow> raise TypeError)"

definition policy_gradient_model_factory ::
  "('n, 's, 'a) framework \<Rightarrow> 's \<Rightarrow> env \<Rightarrow> (activation_fn option \<Rightarrow> 'n network) \<Rightarrow>
     real \<Rightarrow> string \<Rightarrow> error + ('n, 's, 'a) Built_Model" where
  "policy_gradient_model_factory fw s0 env network learning_rate action_space =
     Model_init fw s0 env (pg_build_graph fw network action_space learning_rate)
       pg_build_update_feed_dict"

section \<open>Example states\<close>

text \<open>A graph in which two nodes were registered, \<open>1\<close> under \<open>a\<close> and \<open>2\<close> under \<open>b\<close>.\<close>

definition two_keys :: "(nat, nat) Graph" where
  "two_keys =
     snd (Graph_setitem ''b'' 2 (snd (Graph_setitem ''a'' 1 (Graph_init 0))))"

text \<open>
  A small framework to run the model on. Its objects are symbolic: a variable with its
  name, the object made by a framework call, or the output of a layer. Creating an
  object is refused on a finalized graph. A fully connected layer creates its weights and
  its biases, named after the number of layers that exist, adds them to the collections
  of the global, the model and the trainable variables, and makes sure that the
  collection of update ops exists. Minimizing with Adam creates the optimizer's own
  variables, globally but not trainable, and records the op in the collection of train
  ops. A session run refuses \<open>None\<close> as a fetch, returns \<open>None\<close> for an op that has no
  output and an array for every other node, and counts the runs; the numbers in the
  arrays are not modelled.
\<close>

datatype sym = Var string | Op "sym tf_call" | Layer "activation_fn option" sym nat

function decimal :: "nat \<Rightarrow> string" where
  "decimal n =
     (if n < 10 then [char_of (48 + n)] else decimal (n div 10) @ [char_of (48 + n mod 10)])"
  by pat_completeness auto

termination decimal
  by (relation "measure id") auto

fun example_name :: "sym \<Rightarrow> string" where
  "example_name (Var name) = name"
| "example_name _ = ''''"

definition adam_variables :: "sym list \<Rightarrow> sym list" where
  "adam_variables var_list =
     [Var ''beta1_power:0'', Var ''beta2_power:0''] @
     concat (map (\<lambda>v. [Var (butlast (butlast (example_name v)) @ ''/Adam:0''),
                         Var (butlast (butlast (example_name v)) @ ''/Adam_1:0'')]) var_list)"

definition example_op :: "sym tf_call \<Rightarrow> sym tf_graph \<Rightarrow> (tf_exception + sym) \<times> sym tf_graph" where
  "example_op c g =
     (if finalized g then (Inl finalized_error, g)
      else (case c of
              tf_minimize opt loss \<Rightarrow>
                (Inr (Op c),
                 g\<lparr>collections := (collections g)
                      (''variables'' \<mapsto> get_collection g ''variables'' @
                                          adam_variables (get_collection g ''trainable_variables''),
                       ''train_op'' \<mapsto> get_collection g ''train_op'' @ [Op c])\<rparr>)
            | _ \<Rightarrow> (Inr (Op c), g)))"

definition fully_connected :: "activation_fn option \<Rightarrow> sym network" where
  "fully_connected activation inputs num_outputs g =
     (if finalized g then (Inl finalized_error, g)
      else
        (let layers = length (get_collection g ''trainable_variables'') div 2;
             scope = ''fully_connected'' @ (if layers = 0 then '''' else ''_'' @ decimal layers);
             vars = [Var (scope @ ''/weights:0''), Var (scope @ ''/biases:0'')]
         in (Inr (Layer activation inputs num_outputs),
             g\<lparr>collections := (collections g)
                  (''variables'' \<mapsto> get_collection g ''variables'' @ vars,
                   ''model_variables'' \<mapsto> get_collection g ''model_variables'' @ vars,
                   ''trainable_variables'' \<mapsto> get_collection g ''trainable_variables'' @ vars,
                   ''update_ops'' \<mapsto> get_collection g ''update_ops'')\<rparr>)))"

fun has_None :: "sym py \<Rightarrow> bool" where
  "has_None (Obj n) = False"
| "has_None PyNone = True"
| "has_None (PyList ns) = list_ex has_None ns"

fun fetched :: "sym py \<Rightarrow> nat ndarray py" where
  "fetched (Obj (Op (tf_variables_initializer vs))) = PyNone"
| "fetched (Obj (Op (tf_minimize opt loss))) = PyNone"
| "fetched (Obj n) = Obj \<lparr>nd_shape = [1, 2], nd_elems = [0, 0]\<rparr>"
| "fetched PyNone = PyNone"
| "fetched (PyList ns) = PyList (map fetched ns)"

definition example_run ::
  "sym py \<Rightarrow> (sym, nat) feed_dict \<Rightarrow> sym tf_graph \<Rightarrow> nat \<Rightarrow> (tf_exception + nat ndarray py) \<times> nat" where
  "example_run fetches feed_dict g s =
     (if has_None fetches then (Inl ''Fetch argument None has invalid type'', s)
      else (Inr (fetched fetches), Suc s))"

definition example_fw :: "(sym, nat, nat) framework" where
  "example_fw = \<lparr>tf_op = example_op, session_run = example_run, node_name = example_name\<rparr>"

text \<open>
  Two environments: one with a discrete action space of two actions, which has no bounds,
  and one with a continuous action space of one dimension bounded by \<open>-2\<close> and \<open>2\<close>.
\<close>

definition discrete_env :: env where
  "discrete_env =
     \<lparr>observation_space_shape = Some [4], action_space_n = Some 2,
      action_space_shape = Some [], action_space_low = None, action_space_high = None\<rparr>"

definition continuous_env :: env where
  "continuous_env =
     \<lparr>observation_space_shape = Some [3], action_space_n = None,
      action_space_shape = Some [1], action_space_low = Some [- 2], action_space_high = Some [2]\<rparr>"

text \<open>
  A model of the discrete environment after \<open>add_input()\<close>, the same after
  \<open>add_output\<close> of a softmax layer, and the model that the policy-gradient factory
  builds for the discrete environment.
\<close>

definition with_input :: "(sym, nat) Model" where
  "with_input = snd (add_input example_fw '''' tf_float32 None (Model_new 0 discrete_env))"

definition with_output :: "(sym, nat) Model" where
  "with_output = snd (add_output (fully_connected (Some tf_nn_softmax)) None '''' with_input)"

definition discrete_model :: "(sym, nat, nat) Built_Model" where
  "discrete_model =
     projr (policy_gradient_model_factory example_fw 0 discrete_env fully_connected (1 / 100)
              ''discrete'')"

section \<open>Statements that return\<close>

text \<open>When a sequence of statements returns, each of them returned.\<close>

lemma andthen_Inr:
  "andthen f k m = (Inr y, m') \<longleftrightarrow> (\<exists>x m1. f m = (Inr x, m1) \<and> k x m1 = (Inr y, m'))"
  by (auto simp: andthen_def split: prod.splits sum.splits)

lemma pure_Inr: "pure r m = (Inr x, m') \<longleftrightarrow> r = Inr x \<and> m' = m"
  by (auto simp: pure_def)

lemma return_Inr: "return x m = (Inr y, m') \<longleftrightarrow> y = x \<and> m' = m"
  by (auto simp: return_def)

lemma propagate_Inr: "propagate r = Inr x \<longleftrightarrow> r = Inr x"
  by (auto simp: propagate_def split: sum.splits)

lemma on_graph_Inr:
  "on_graph f G = (Inr x, G') \<longleftrightarrow> (\<exists>g'. f (G_graph G) = (Inr x, g') \<and> G' = G\<lparr>G_graph := g'\<rparr>)"
  by (auto simp: on_graph_def propagate_Inr split: prod.splits)

lemma on_G_Inr:
  "on_G f m = (Inr x, m') \<longleftrightarrow> (\<exists>G'. f (M_G m) = (Inr x, G') \<and> m' = m\<lparr>M_G := G'\<rparr>)"
  by (auto simp: on_G_def split: prod.splits)

lemma Graph_call_Inr:
  "Graph_call fw ops fd G = (Inr r, G') \<longleftrightarrow>
     (\<exists>s'. session_run fw ops fd (G_graph G) (G_session G) = (Inr r, s') \<and> G' = G\<lparr>G_session := s'\<rparr>)"
  by (auto simp: Graph_call_def propagate_Inr split: prod.splits)

lemma setitem_Inr:
  "Graph_setitem name node G = (Inr u, G') \<longleftrightarrow>
     collections (G_graph G) name = None \<and> \<not> finalized (G_graph G) \<and>
     G' = G\<lparr>G_graph := (G_graph G)\<lparr>collections := (collections (G_graph G))(name \<mapsto> [node])\<rparr>\<rparr>"
  by (auto simp: Graph_setitem_def on_graph_def propagate_def add_to_collection_def Graph_contains_def
           split: if_splits)

section \<open>Properties of the Graph registry\<close>

lemma getitem_each_list_all2:
  "getitem_each G vs = Inr rs \<longleftrightarrow> list_all2 (\<lambda>v r. Graph_getitem G v = Inr r) vs rs"
proof (induction vs arbitrary: rs)
  case Nil
  then show ?case by auto
next
  case (Cons v vs)
  show ?case
  proof (cases "Graph_getitem G v")
    case (Inl e)
    then show ?thesis by (auto simp: list_all2_Cons1)
  next
    case (Inr a)
    note a = this
    show ?thesis
    proof (cases "getitem_each G vs")
      case (Inl e)
      with a Cons.IH show ?thesis by (auto simp: list_all2_Cons1)
    next
      case (Inr as)
      with a Cons.IH[of as] Cons.IH show ?thesis
        by (auto simp: list_all2_Cons1)
    qed
  qed
qed

lemma getitem_each_fails:
  "(\<exists>e. getitem_each G vs = Inl e) \<longleftrightarrow> (\<exists>v \<in> set vs. \<exists>e. Graph_getitem G v = Inl e)"
  by (induction vs) (auto split: sum.splits)

lemma setitem_success:
  "Graph_setitem name node G = (Inr (), G') \<Longrightarrow>
     collections (G_graph G') = (collections (G_graph G))(name \<mapsto> [node]) \<and> \<not> Graph_contains G name"
  by (auto simp: Graph_setitem_def on_graph_def propagate_def add_to_collection_def Graph_contains_def split: if_splits)

text \<open>
  C2. Set-then-get round trip: when \<open>Graph.__setitem__(name, node)\<close> succeeds,
  \<open>Graph.__getitem__(name)\<close> returns exactly that node and \<open>name in graph\<close> is true;
  and it does succeed for every name that is not registered yet, on a graph that is not
  finalized.
\<close>

theorem setitem_getitem_roundtrip:
  "(Graph_setitem name node G = (Inr (), G') \<longrightarrow>
      Graph_getitem G' (Name name) = Inr (Obj node) \<and> Graph_contains G' name) \<and>
   (\<not> Graph_contains G name \<and> \<not> finalized (G_graph G) \<longrightarrow>
      (\<exists>G'. Graph_setitem name node G = (Inr (), G')))"
  by (auto simp: Graph_setitem_def on_graph_def propagate_def add_to_collection_def Graph_contains_def get_collection_def split: if_splits)

text \<open>
  C7. \<open>Graph.__getitem__\<close> on a name raises the missing-key \<open>KeyError\<close> if and only if
  \<open>Graph.__contains__\<close> says the name is not registered; on a list it returns the list of
  the lookups of the elements, in order, and it fails if and only if the lookup of some
  element fails.
\<close>

theorem getitem_fails_on_missing:
  "((\<exists>msg. Graph_getitem G (Name v) = Inl (KeyError msg)) \<longleftrightarrow> \<not> Graph_contains G v) \<and>
   (Graph_getitem G (Names vs) = Inr r \<longleftrightarrow>
      (\<exists>rs. r = PyList rs \<and> list_all2 (\<lambda>v r. Graph_getitem G v = Inr r) vs rs)) \<and>
   ((\<exists>e. Graph_getitem G (Names vs) = Inl e) \<longleftrightarrow>
      (\<exists>v \<in> set vs. \<exists>e. Graph_getitem G v = Inl e))"
proof (intro conjI)
  show "(\<exists>msg. Graph_getitem G (Name v) = Inl (KeyError msg)) \<longleftrightarrow> \<not> Graph_contains G v"
    by (auto split: list.splits)
  have "Graph_getitem G (Names vs) = Inr r \<longleftrightarrow> (\<exists>rs. r = PyList rs \<and> getitem_each G vs = Inr rs)"
    by (auto split: sum.splits)
  then show "Graph_getitem G (Names vs) = Inr r \<longleftrightarrow>
      (\<exists>rs. r = PyList rs \<and> list_all2 (\<lambda>v r. Graph_getitem G v = Inr r) vs rs)"
    by (simp add: getitem_each_list_all2)
  have "(\<exists>e. Graph_getitem G (Names vs) = Inl e) \<longleftrightarrow> (\<exists>e. getitem_each G vs = Inl e)"
    by (auto split: sum.splits)
  then show "(\<exists>e. Graph_getitem G (Names vs) = Inl e) \<longleftrightarrow>
      (\<exists>v \<in> set vs. \<exists>e. Graph_getitem G v = Inl e)"
    by (simp add: getitem_each_fails)
qed

lemma registered_one_node:
  "one_node_per_key G \<Longrightarrow> Graph_contains G k \<Longrightarrow> \<exists>n. collections (G_graph G) k = Some [n]"
proof -
  assume inv: "one_node_per_key G" and reg: "Graph_contains G k"
  from reg obtain ns where ns: "collections (G_graph G) k = Some ns"
    by (auto simp: Graph_contains_def)
  from inv have "case collections (G_graph G) k of None \<Rightarrow> True | Some ns \<Rightarrow> length ns = 1"
    unfolding one_node_per_key_def by blast
  with ns have "length ns = 1" by simp
  then obtain n where "ns = [n]" by (cases ns) auto
  with ns show ?thesis by simp
qed

lemma setitem_inv:
  "one_node_per_key G \<Longrightarrow> one_node_per_key (snd (Graph_setitem name node G))"
  by (auto simp: one_node_per_key_def Graph_setitem_def on_graph_def propagate_def add_to_collection_def Graph_contains_def split: option.splits)

theorem setitem_getitem_roundtrip_witness:
  "\<not> Graph_contains (Graph_init (0::nat) :: (nat, nat) Graph) ''input:'' \<and>
   \<not> finalized (G_graph (Graph_init (0::nat) :: (nat, nat) Graph)) \<and>
   (\<exists>G'. Graph_setitem ''input:'' (7::nat) (Graph_init (0::nat)) = (Inr (), G') \<and>
         Graph_getitem G' (Name ''input:'') = Inr (Obj 7) \<and> Graph_contains G' ''input:'')"
proof -
  let ?G = "Graph_init (0::nat) :: (nat, nat) Graph"
  have h: "\<not> Graph_contains ?G ''input:'' \<and> \<not> finalized (G_graph ?G)"
    by (simp add: Graph_contains_def Graph_init_def tf_Graph_def)
  with setitem_getitem_roundtrip[of "''input:''" 7 ?G] obtain G' where
    G': "Graph_setitem ''input:'' (7::nat) ?G = (Inr (), G')" by blast
  with setitem_getitem_roundtrip[of "''input:''" 7 ?G G'] h show ?thesis by blast
qed

lemma two_keys_collections: "collections (G_graph two_keys) = [''a'' \<mapsto> [1], ''b'' \<mapsto> [2]]"
  by (simp add: two_keys_def Graph_setitem_def on_graph_def propagate_def Graph_contains_def Graph_init_def tf_Graph_def add_to_collection_def)

theorem getitem_fails_on_missing_witness:
  "\<not> Graph_contains two_keys ''c'' \<and> Graph_getitem two_keys (Name ''c'') = Inl (KeyError (missing_msg ''c'')) \<and>
   Graph_getitem two_keys (Names [Name ''b'', Name ''a'']) = Inr (PyList [Obj 2, Obj 1]) \<and>
   (\<exists>e. Graph_getitem two_keys (Names [Name ''b'', Name ''c'']) = Inl e)"
proof -
  have 1: "\<not> Graph_contains two_keys ''c''" by (simp add: Graph_contains_def two_keys_collections)
  have 2: "Graph_getitem two_keys (Name ''b'') = Inr (Obj 2)" "Graph_getitem two_keys (Name ''a'') = Inr (Obj 1)"
    by (simp_all add: Graph_contains_def two_keys_collections get_collection_def)
  have 3: "Graph_getitem two_keys (Name ''c'') = Inl (KeyError (missing_msg ''c''))"
    using 1 by simp
  from 2 have 4: "list_all2 (\<lambda>v r. Graph_getitem two_keys v = Inr r) [Name ''b'', Name ''a''] [Obj 2, Obj 1]"
    by simp
  from getitem_fails_on_missing[of two_keys "''c''" "[Name ''b'', Name ''a'']" "PyList [Obj 2, Obj 1]"] 4
  have 5: "Graph_getitem two_keys (Names [Name ''b'', Name ''a'']) = Inr (PyList [Obj 2, Obj 1])" by blast
  from getitem_fails_on_missing[of two_keys "''c''" "[Name ''b'', Name ''c'']"] 3
  have 6: "\<exists>e. Graph_getitem two_keys (Names [Name ''b'', Name ''c'']) = Inl e" by simp
  from 1 3 5 6 show ?thesis by blast
qed

section \<open>Properties of Model\<close>

lemma num_outputs_resolved:
  "(case num_outputs of None \<Rightarrow> get_env_action_space_dimension m | Some k \<Rightarrow> Inr k) = Inr k \<longleftrightarrow>
     (case num_outputs of
        Some n \<Rightarrow> k = n
      | None \<Rightarrow> (case action_space_n (M_env m) of
                   Some n \<Rightarrow> k = n
                 | None \<Rightarrow> (\<exists>ds. action_space_shape (M_env m) = Some (k # ds))))"
  by (auto simp: get_env_action_space_dimension_def first_of_def split: option.splits list.splits)

lemma input_node_read:
  "(case M_input_node m of None \<Rightarrow> Inl (AttributeError ''input_node'') | Some i \<Rightarrow> Inr i) = Inr i
     \<longleftrightarrow> M_input_node m = Some i"
  by (simp split: option.splits)

lemma getitem_registered:
  "collections (G_graph G) name = Some (n # ns) \<Longrightarrow> Graph_getitem G (Name name) = Inr (Obj n)"
  by (simp add: Graph_contains_def get_collection_def)

text \<open>
  C5. \<open>Model.add_output\<close> returns a node exactly when the model has an input node, the
  number of outputs is the argument or else the dimension of the action space
  (\<open>action_space.n\<close> when the attribute exists, otherwise \<open>action_space.shape[0]\<close>), the
  network applied to the input node and that number returns the node, and registering the
  node under \<open>'output:' + name\<close> succeeds; the model is then changed by the network's
  effect on the graph and by the registration only, and looking the key up gives the
  node.
\<close>

theorem add_output_passthrough:
  "(add_output network num_outputs name m = (Inr node, m') \<longleftrightarrow>
     (\<exists>inputs k g' G'.
        M_input_node m = Some inputs \<and>
        (case num_outputs of
           Some n \<Rightarrow> k = n
         | None \<Rightarrow> (case action_space_n (M_env m) of
                      Some n \<Rightarrow> k = n
                    | None \<Rightarrow> (\<exists>ds. action_space_shape (M_env m) = Some (k # ds)))) \<and>
        network inputs k (G_graph (M_G m)) = (Inr node, g') \<and>
        Graph_setitem (''output:'' @ name) node ((M_G m)\<lparr>G_graph := g'\<rparr>) = (Inr (), G') \<and>
        m' = m\<lparr>M_G := G'\<rparr>)) \<and>
   (add_output network num_outputs name m = (Inr node, m') \<longrightarrow>
      Graph_getitem (M_G m') (Name (''output:'' @ name)) = Inr (Obj node))"
proof -
  have A: "add_output network num_outputs name m = (Inr node, m') \<longleftrightarrow>
     (\<exists>inputs k g' G'.
        M_input_node m = Some inputs \<and>
        (case num_outputs of
           Some n \<Rightarrow> k = n
         | None \<Rightarrow> (case action_space_n (M_env m) of
                      Some n \<Rightarrow> k = n
                    | None \<Rightarrow> (\<exists>ds. action_space_shape (M_env m) = Some (k # ds)))) \<and>
        network inputs k (G_graph (M_G m)) = (Inr node, g') \<and>
        Graph_setitem (''output:'' @ name) node ((M_G m)\<lparr>G_graph := g'\<rparr>) = (Inr (), G') \<and>
        m' = m\<lparr>M_G := G'\<rparr>)"
    (is "?L \<longleftrightarrow> ?R")
  proof
    assume ?L
    then obtain k inputs g' G' where
      k: "(case num_outputs of None \<Rightarrow> get_env_action_space_dimension m | Some k \<Rightarrow> Inr k) = Inr k"
      and i: "M_input_node m = Some inputs"
      and n: "network inputs k (G_graph (M_G m)) = (Inr node, g')"
      and s: "Graph_setitem (''output:'' @ name) node ((M_G m)\<lparr>G_graph := g'\<rparr>) = (Inr (), G')"
      and m': "m' = m\<lparr>M_G := G'\<rparr>"
      unfolding add_output_def andthen_Inr pure_Inr return_Inr on_G_Inr on_graph_Inr input_node_read
      by fastforce
    from k have k': "case num_outputs of
           Some n \<Rightarrow> k = n
         | None \<Rightarrow> (case action_space_n (M_env m) of
                      Some n \<Rightarrow> k = n
                    | None \<Rightarrow> (\<exists>ds. action_space_shape (M_env m) = Some (k # ds)))"
      unfolding num_outputs_resolved .
    show ?R
      by (rule exI[of _ inputs], rule exI[of _ k], rule exI[of _ g'], rule exI[of _ G'])
         (intro conjI i k' n s m')
  next
    assume ?R
    then obtain k inputs g' G' where
      k': "case num_outputs of
           Some n \<Rightarrow> k = n
         | None \<Rightarrow> (case action_space_n (M_env m) of
                      Some n \<Rightarrow> k = n
                    | None \<Rightarrow> (\<exists>ds. action_space_shape (M_env m) = Some (k # ds)))"
      and i: "M_input_node m = Some inputs"
      and n: "network inputs k (G_graph (M_G m)) = (Inr node, g')"
      and s: "Graph_setitem (''output:'' @ name) node ((M_G m)\<lparr>G_graph := g'\<rparr>) = (Inr (), G')"
      and m': "m' = m\<lparr>M_G := G'\<rparr>"
      by (elim exE conjE)
    from k' have k: "(case num_outputs of None \<Rightarrow> get_env_action_space_dimension m | Some k \<Rightarrow> Inr k) = Inr k"
      unfolding num_outputs_resolved .
    have 0: "pure (case num_outputs of None \<Rightarrow> get_env_action_space_dimension m | Some k \<Rightarrow> Inr k) m
               = (Inr k, m)"
      using k by (simp add: pure_def)
    have 1: "pure (case M_input_node m of None \<Rightarrow> Inl (AttributeError ''input_node'') | Some i \<Rightarrow> Inr i) m
               = (Inr inputs, m)"
      using i by (simp add: pure_def)
    have 2: "on_G (on_graph (network inputs k)) m = (Inr node, m\<lparr>M_G := (M_G m)\<lparr>G_graph := g'\<rparr>\<rparr>)"
      using n by (simp add: on_G_def on_graph_def propagate_def)
    have 3: "on_G (Graph_setitem (''output:'' @ name) node) (m\<lparr>M_G := (M_G m)\<lparr>G_graph := g'\<rparr>\<rparr>)
              = (Inr (), m')"
      using s m' by (simp add: on_G_def)
    show ?L
      using 0 1 2 3 by (simp add: add_output_def andthen_def return_def)
  qed
  have B: "add_output network num_outputs name m = (Inr node, m') \<longrightarrow>
      Graph_getitem (M_G m') (Name (''output:'' @ name)) = Inr (Obj node)"
  proof
    assume "add_output network num_outputs name m = (Inr node, m')"
    with A obtain g' G' where
      s: "Graph_setitem (''output:'' @ name) node ((M_G m)\<lparr>G_graph := g'\<rparr>) = (Inr (), G')"
      and m': "m' = m\<lparr>M_G := G'\<rparr>"
      by blast
    from s have "collections (G_graph G') (''output:'' @ name) = Some [node]"
      unfolding setitem_Inr by simp
    with m' have "collections (G_graph (M_G m')) (''output:'' @ name) = Some [node]"
      by simp
    then show "Graph_getitem (M_G m') (Name (''output:'' @ name)) = Inr (Obj node)"
      by (rule getitem_registered)
  qed
  from A B show ?thesis by blast
qed





lemma optimizer_op_asserted:
  "(case M_optimizer_op m of None \<Rightarrow> Inl AssertionError | Some _ \<Rightarrow> Inr ()) = Inr u
     \<longleftrightarrow> (\<exists>op. M_optimizer_op m = Some op)"
  by (auto split: option.splits)

lemma unpack_two:
  "(case r of PyList [_, loss] \<Rightarrow> Inr loss | _ \<Rightarrow> Inl UnpackError) = Inr l
     \<longleftrightarrow> (\<exists>x. r = PyList [x, l])"
  by (auto split: py.splits list.splits)

lemma Model_init_closure:
  "Model_init fw s0 env build_graph closure = Inr M \<Longrightarrow> build_update_feed_dict M = closure"
  by (auto simp: Model_init_def Model.extend_def Built_Model.fields_def split: prod.splits sum.splits)

text \<open>
  C3. \<open>Model.update\<close> fails its assertion when no optimizer op is set. It returns a
  loss exactly when an optimizer op is set, the closure \<open>build_update_feed_dict\<close>,
  called with the model and the arguments, returns a feed dict, and one session run of
  the list of the optimizer op and the loss node with that feed dict returns two values,
  the second of which is the loss returned; after the closure only the session changes.
  The closure is the one given to the constructor.
\<close>

theorem update_passthrough:
  "(M_optimizer_op m = None \<longrightarrow> update fw args m = (Inl AssertionError, m)) \<and>
   (update fw args m = (Inr loss, m') \<longleftrightarrow>
     (\<exists>op feed_dict c m1 x s'.
        M_optimizer_op m = Some op \<and>
        build_update_feed_dict m args (Model.truncate m) = (Inr feed_dict, c) \<and>
        m1 = Model.extend c (Model.more m) \<and>
        session_run fw
          (PyList [case M_optimizer_op m1 of None \<Rightarrow> PyNone | Some op \<Rightarrow> Obj op,
                   case M_loss m1 of None \<Rightarrow> PyNone | Some l \<Rightarrow> Obj l])
          feed_dict (G_graph (M_G m1)) (G_session (M_G m1)) = (Inr (PyList [x, loss]), s') \<and>
        m' = m1\<lparr>M_G := (M_G m1)\<lparr>G_session := s'\<rparr>\<rparr>)) \<and>
   (Model_init fw s0 env build_graph closure = Inr m \<longrightarrow> build_update_feed_dict m = closure)"
proof -
  have A: "M_optimizer_op m = None \<longrightarrow> update fw args m = (Inl AssertionError, m)"
    by (simp add: update_def andthen_def pure_def)
  have B: "update fw args m = (Inr loss, m') \<longleftrightarrow>
     (\<exists>op feed_dict c m1 x s'.
        M_optimizer_op m = Some op \<and>
        build_update_feed_dict m args (Model.truncate m) = (Inr feed_dict, c) \<and>
        m1 = Model.extend c (Model.more m) \<and>
        session_run fw
          (PyList [case M_optimizer_op m1 of None \<Rightarrow> PyNone | Some op \<Rightarrow> Obj op,
                   case M_loss m1 of None \<Rightarrow> PyNone | Some l \<Rightarrow> Obj l])
          feed_dict (G_graph (M_G m1)) (G_session (M_G m1)) = (Inr (PyList [x, loss]), s') \<and>
        m' = m1\<lparr>M_G := (M_G m1)\<lparr>G_session := s'\<rparr>\<rparr>)" (is "?L \<longleftrightarrow> ?R")
  proof
    assume ?L
    then obtain op feed_dict m1 r G' where
      a: "M_optimizer_op m = Some op"
      and f: "(case build_update_feed_dict m args (Model.truncate m) of
                 (r, c) \<Rightarrow> (r, Model.extend c (Model.more m))) = (Inr feed_dict, m1)"
      and r: "Graph_call fw
          (PyList [case M_optimizer_op m1 of None \<Rightarrow> PyNone | Some op \<Rightarrow> Obj op,
                   case M_loss m1 of None \<Rightarrow> PyNone | Some l \<Rightarrow> Obj l])
          feed_dict (M_G m1) = (Inr r, G')"
      and u: "\<exists>x. r = PyList [x, loss]"
      and m': "m' = m1\<lparr>M_G := G'\<rparr>"
      unfolding update_def andthen_Inr pure_Inr on_G_Inr optimizer_op_asserted unpack_two
      by fastforce
    from f obtain c where c: "build_update_feed_dict m args (Model.truncate m) = (Inr feed_dict, c)"
      and m1: "m1 = Model.extend c (Model.more m)"
      by (auto split: prod.splits)
    from u obtain x where x: "r = PyList [x, loss]" by blast
    from r obtain s' where s: "session_run fw
          (PyList [case M_optimizer_op m1 of None \<Rightarrow> PyNone | Some op \<Rightarrow> Obj op,
                   case M_loss m1 of None \<Rightarrow> PyNone | Some l \<Rightarrow> Obj l])
          feed_dict (G_graph (M_G m1)) (G_session (M_G m1)) = (Inr r, s')"
      and G': "G' = (M_G m1)\<lparr>G_session := s'\<rparr>"
      unfolding Graph_call_Inr by blast
    show ?R
      apply (rule exI[of _ op], rule exI[of _ feed_dict], rule exI[of _ c], rule exI[of _ m1],
             rule exI[of _ x], rule exI[of _ s'])
      using a c m1 s x m' G' by blast
  next
    assume ?R
    then obtain op feed_dict c m1 x s' where
      a: "M_optimizer_op m = Some op"
      and c: "build_update_feed_dict m args (Model.truncate m) = (Inr feed_dict, c)"
      and m1: "m1 = Model.extend c (Model.more m)"
      and s: "session_run fw
          (PyList [case M_optimizer_op m1 of None \<Rightarrow> PyNone | Some op \<Rightarrow> Obj op,
                   case M_loss m1 of None \<Rightarrow> PyNone | Some l \<Rightarrow> Obj l])
          feed_dict (G_graph (M_G m1)) (G_session (M_G m1)) = (Inr (PyList [x, loss]), s')"
      and m': "m' = m1\<lparr>M_G := (M_G m1)\<lparr>G_session := s'\<rparr>\<rparr>"
      by (elim exE conjE)
    have 1: "(case build_update_feed_dict m args (Model.truncate m) of
                 (r, c) \<Rightarrow> (r, Model.extend c (Model.more m))) = (Inr feed_dict, m1)"
      using c m1 by simp
    have 2: "on_G (Graph_call fw
          (PyList [case M_optimizer_op m1 of None \<Rightarrow> PyNone | Some op \<Rightarrow> Obj op,
                   case M_loss m1 of None \<Rightarrow> PyNone | Some l \<Rightarrow> Obj l])
          feed_dict) m1 = (Inr (PyList [x, loss]), m')"
      using s m' by (simp add: on_G_def Graph_call_def propagate_def)
    show ?L
      unfolding update_def andthen_Inr pure_Inr optimizer_op_asserted unpack_two
      apply (rule exI[of _ "()"], rule exI[of _ m], rule conjI)
      using a apply blast
      apply (rule exI[of _ feed_dict], rule exI[of _ m1], rule conjI)
       apply (rule 1)
      apply (rule exI[of _ "PyList [x, loss]"], rule exI[of _ m'], rule conjI)
       apply (rule 2)
      apply blast
      done
  qed
  have C: "Model_init fw s0 env build_graph closure = Inr m \<longrightarrow> build_update_feed_dict m = closure"
    by (rule impI) (rule Model_init_closure)
  from A B C show ?thesis by blast
qed


lemma with_G_Inr:
  "with_G fw body m = (Inr u, m') \<longleftrightarrow>
     (\<exists>m1 G'. body (m\<lparr>M_G := Graph_enter (M_G m)\<rparr>) = (Inr u, m1) \<and>
              Graph_exit fw (M_G m1) = (Inr (), G') \<and> m' = m1\<lparr>M_G := G'\<rparr>)"
  unfolding with_G_def on_G_def
  by (auto split: prod.splits sum.splits)


lemma Model_init_Inr:
  "Model_init fw s0 env build_graph closure = Inr M \<longleftrightarrow>
     (\<exists>m'. with_G fw (andthen build_graph (\<lambda>_. create_weight_setter_ops fw)) (Model_new s0 env)
             = (Inr (), m') \<and>
           M = Model.extend m' (Built_Model.fields closure))"
  by (auto simp: Model_init_def split: prod.splits sum.splits)


lemma tf_Inr:
  "tf fw c m = (Inr n, m') \<longleftrightarrow>
     (\<exists>g'. tf_op fw c (G_graph (M_G m)) = (Inr n, g') \<and> m' = m\<lparr>M_G := (M_G m)\<lparr>G_graph := g'\<rparr>\<rparr>)"
  unfolding tf_def on_G_Inr on_graph_Inr by auto

lemma on_G_setitem_Inr:
  "on_G (Graph_setitem name node) m = (Inr u, m') \<longleftrightarrow>
     collections (G_graph (M_G m)) name = None \<and> \<not> finalized (G_graph (M_G m)) \<and>
     m' = m\<lparr>M_G := (M_G m)\<lparr>G_graph :=
            (G_graph (M_G m))\<lparr>collections := (collections (G_graph (M_G m)))(name \<mapsto> [node])\<rparr>\<rparr>\<rparr>"
  unfolding on_G_Inr setitem_Inr by auto

lemma weight_keys_differ:
  "''weight_input_var:'' @ a \<noteq> ''set_weight_op:'' @ b"
  by simp

lemma weight_setter_ops_for_registers:
  assumes keeps: "\<And>w wi g. collections (snd (tf_op fw (tf_placeholder_with_default w) g)) = collections g
                     \<and> collections (snd (tf_op fw (tf_assign w wi) g)) = collections g"
  shows "weight_setter_ops_for fw ws m = (Inr (), m') \<Longrightarrow>
     (\<forall>k v. collections (G_graph (M_G m)) k = Some v \<longrightarrow> collections (G_graph (M_G m')) k = Some v) \<and>
     (\<forall>w \<in> set ws. \<exists>w_input assign g1 g2.
        fst (tf_op fw (tf_placeholder_with_default w) g1) = Inr w_input \<and>
        fst (tf_op fw (tf_assign w w_input) g2) = Inr assign \<and>
        collections (G_graph (M_G m')) (''weight_input_var:'' @ node_name fw w) = Some [w_input] \<and>
        collections (G_graph (M_G m')) (''set_weight_op:'' @ node_name fw w) = Some [assign])"
proof (induction ws arbitrary: m)
  case Nil
  then show ?case by (simp add: return_def)
next
  case (Cons w ws)
  let ?k1 = "''weight_input_var:'' @ node_name fw w"
  let ?k2 = "''set_weight_op:'' @ node_name fw w"
  from Cons.prems obtain wi ma mb a mc md where
    1: "tf fw (tf_placeholder_with_default w) m = (Inr wi, ma)"
    and 2: "on_G (Graph_setitem ?k1 wi) ma = (Inr (), mb)"
    and 3: "tf fw (tf_assign w wi) mb = (Inr a, mc)"
    and 4: "on_G (Graph_setitem ?k2 a) mc = (Inr (), md)"
    and 5: "weight_setter_ops_for fw ws md = (Inr (), m')"
    unfolding weight_setter_ops_for.simps andthen_Inr by (metis old.unit.exhaust)
  from 1 obtain g1 where g1: "tf_op fw (tf_placeholder_with_default w) (G_graph (M_G m)) = (Inr wi, g1)"
    and ma: "G_graph (M_G ma) = g1"
    unfolding tf_Inr by auto
  from keeps[of w "G_graph (M_G m)" wi] g1 ma
  have ca: "collections (G_graph (M_G ma)) = collections (G_graph (M_G m))" by simp
  from 2 have fresh1: "collections (G_graph (M_G ma)) ?k1 = None"
    and cb: "collections (G_graph (M_G mb)) = (collections (G_graph (M_G ma)))(?k1 \<mapsto> [wi])"
    unfolding on_G_setitem_Inr by auto
  from 3 obtain g2 where g2: "tf_op fw (tf_assign w wi) (G_graph (M_G mb)) = (Inr a, g2)"
    and mc: "G_graph (M_G mc) = g2"
    unfolding tf_Inr by auto
  from keeps[of w "G_graph (M_G mb)" wi] g2 mc
  have cc: "collections (G_graph (M_G mc)) = collections (G_graph (M_G mb))" by simp
  from 4 have fresh2: "collections (G_graph (M_G mc)) ?k2 = None"
    and cd: "collections (G_graph (M_G md)) = (collections (G_graph (M_G mc)))(?k2 \<mapsto> [a])"
    unfolding on_G_setitem_Inr by auto
  from Cons.IH[OF 5] have
    mono: "\<And>k v. collections (G_graph (M_G md)) k = Some v \<Longrightarrow> collections (G_graph (M_G m')) k = Some v"
    and rest: "\<forall>w \<in> set ws. \<exists>w_input assign g1 g2.
        fst (tf_op fw (tf_placeholder_with_default w) g1) = Inr w_input \<and>
        fst (tf_op fw (tf_assign w w_input) g2) = Inr assign \<and>
        collections (G_graph (M_G m')) (''weight_input_var:'' @ node_name fw w) = Some [w_input] \<and>
        collections (G_graph (M_G m')) (''set_weight_op:'' @ node_name fw w) = Some [assign]"
    by blast+
  have d1: "collections (G_graph (M_G md)) ?k1 = Some [wi]"
    unfolding cd cc cb by (simp del: append.simps)
  have d2: "collections (G_graph (M_G md)) ?k2 = Some [a]"
    unfolding cd by simp
  have keep: "\<And>k v. collections (G_graph (M_G m)) k = Some v \<Longrightarrow> collections (G_graph (M_G md)) k = Some v"
  proof -
    fix k v assume kv: "collections (G_graph (M_G m)) k = Some v"
    with fresh1 ca have "k \<noteq> ?k1" by auto
    moreover from kv fresh2 cc cb ca have "k \<noteq> ?k2" by (auto split: if_splits)
    ultimately show "collections (G_graph (M_G md)) k = Some v"
      unfolding cd cc cb ca using kv by simp
  qed
  have here: "\<exists>w_input assign g1 g2.
        fst (tf_op fw (tf_placeholder_with_default w) g1) = Inr w_input \<and>
        fst (tf_op fw (tf_assign w w_input) g2) = Inr assign \<and>
        collections (G_graph (M_G m')) ?k1 = Some [w_input] \<and>
        collections (G_graph (M_G m')) ?k2 = Some [assign]"
    apply (rule exI[of _ wi], rule exI[of _ a], rule exI[of _ "G_graph (M_G m)"],
           rule exI[of _ "G_graph (M_G mb)"])
    using g1 g2 mono[OF d1] mono[OF d2] by simp
  show ?case
  proof (intro conjI allI impI ballI)
    fix k v assume "collections (G_graph (M_G m)) k = Some v"
    then show "collections (G_graph (M_G m')) k = Some v" using keep mono by blast
  next
    fix x assume "x \<in> set (w # ws)"
    then consider "x = w" | "x \<in> set ws" by auto
    then show "\<exists>w_input assign g1 g2.
        fst (tf_op fw (tf_placeholder_with_default x) g1) = Inr w_input \<and>
        fst (tf_op fw (tf_assign x w_input) g2) = Inr assign \<and>
        collections (G_graph (M_G m')) (''weight_input_var:'' @ node_name fw x) = Some [w_input] \<and>
        collections (G_graph (M_G m')) (''set_weight_op:'' @ node_name fw x) = Some [assign]"
    proof cases
      case 1
      with here show ?thesis by simp
    next
      case 2
      with rest show ?thesis by blast
    qed
  qed
qed


lemma fold_feed_Inl:
  "fold (\<lambda>(n, w) acc. case acc of Inl e \<Rightarrow> Inl e | Inr d \<Rightarrow> f n w d) ws (Inl e) = Inl e"
  by (induction ws) auto

lemma weights_feed_dict_Cons:
  "weights_feed_dict G d ((n, w) # ws) =
     (case Graph_getitem G (Name (''weight_input_var:'' @ n)) of
        Inl e \<Rightarrow> Inl e
      | Inr (Obj k) \<Rightarrow> weights_feed_dict G (d(k \<mapsto> w)) ws
      | Inr _ \<Rightarrow> Inl TypeError)"
  unfolding weights_feed_dict_def
  by (simp add: fold_feed_Inl split: sum.splits py.splits del: Graph_getitem.simps)

lemma weights_feed_dict_Nil: "weights_feed_dict G d [] = Inr d"
  by (simp add: weights_feed_dict_def)

lemma weights_feed_dict_found:
  "(\<forall>(n, v) \<in> set ws. Graph_getitem G (Name (''weight_input_var:'' @ n)) = Inr (Obj (ph n))) \<Longrightarrow>
     weights_feed_dict G d ws = Inr (fold (\<lambda>(n, v) d. d(ph n \<mapsto> v)) ws d)"
proof (induction ws arbitrary: d)
  case Nil
  show ?case by (simp add: weights_feed_dict_Nil)
next
  case (Cons x ws)
  obtain n v where x: "x = (n, v)" by (cases x)
  from Cons.prems x have here: "Graph_getitem G (Name (''weight_input_var:'' @ n)) = Inr (Obj (ph n))"
    and rest: "\<forall>(n, v) \<in> set ws. Graph_getitem G (Name (''weight_input_var:'' @ n)) = Inr (Obj (ph n))"
    by auto
  show ?case
    unfolding x weights_feed_dict_Cons here
    using Cons.IH[OF rest] by simp
qed

lemma weights_feed_dict_missing:
  "(\<exists>(n, v) \<in> set ws. \<not> Graph_contains G (''weight_input_var:'' @ n)) \<Longrightarrow>
     \<exists>e. weights_feed_dict G d ws = Inl e"
proof (induction ws arbitrary: d)
  case Nil
  then show ?case by simp
next
  case (Cons x ws)
  obtain n v where x: "x = (n, v)" by (cases x)
  show ?case
  proof (cases "Graph_getitem G (Name (''weight_input_var:'' @ n))")
    case (Inl e)
    then show ?thesis unfolding x weights_feed_dict_Cons by simp
  next
    case (Inr r)
    then have reg: "Graph_contains G (''weight_input_var:'' @ n)"
      by (auto split: if_splits)
    with Cons.prems x have "\<exists>(n, v) \<in> set ws. \<not> Graph_contains G (''weight_input_var:'' @ n)"
      by auto
    from Cons.IH[OF this] Inr show ?thesis
      unfolding x weights_feed_dict_Cons by (cases r) auto
  qed
qed

lemma set_ops_found:
  "(\<forall>n \<in> set ns. Graph_getitem G (Name (''set_weight_op:'' @ n)) = Inr (Obj (opn n))) \<Longrightarrow>
     getitem_each G (map (\<lambda>n. Name (''set_weight_op:'' @ n)) ns) = Inr (map (\<lambda>n. Obj (opn n)) ns)"
  by (induction ns) (simp_all del: Graph_getitem.simps)

lemma fold_feed_other:
  "k \<notin> ph ` fst ` set ws \<Longrightarrow> fold (\<lambda>(n, v) d. d(ph n \<mapsto> v)) ws d k = d k"
  by (induction ws arbitrary: d) (auto split: prod.splits)

lemma fold_feed_value:
  "distinct (map (\<lambda>(n, v). ph n) ws) \<Longrightarrow> (n, v) \<in> set ws \<Longrightarrow>
     fold (\<lambda>(n, v) d. d(ph n \<mapsto> v)) ws d (ph n) = Some v"
proof (induction ws arbitrary: d)
  case Nil
  then show ?case by simp
next
  case (Cons x ws)
  obtain n0 v0 where x: "x = (n0, v0)" by (cases x)
  from Cons.prems(1) x have notin: "ph n0 \<notin> ph ` fst ` set ws" and dist: "distinct (map (\<lambda>(n, v). ph n) ws)"
    by (auto simp: image_iff split: prod.splits) 
  have step: "fold (\<lambda>(n, v) d. d(ph n \<mapsto> v)) (x # ws) d
                = fold (\<lambda>(n, v) d. d(ph n \<mapsto> v)) ws (d(ph n0 \<mapsto> v0))"
    by (simp only: x fold_simps split_conv)
  show ?case
  proof (cases "(n, v) = x")
    case True
    with x have nv: "n = n0" "v = v0" by auto
    have "fold (\<lambda>(n, v) d. d(ph n \<mapsto> v)) ws (d(ph n0 \<mapsto> v0)) (ph n0) = (d(ph n0 \<mapsto> v0)) (ph n0)"
      by (rule fold_feed_other[OF notin])
    also have "\<dots> = Some v0" by simp
    finally show ?thesis unfolding step nv .
  next
    case False
    with Cons.prems(2) have "(n, v) \<in> set ws" by simp
    from Cons.IH[OF dist this] show ?thesis unfolding step .
  qed
qed


lemma update_fresh: "k \<notin> fst ` set al \<Longrightarrow> AList.update k v al = al @ [(k, v)]"
  by (induction al) auto

lemma weight_dict_zip:
  "distinct (map f ws) \<Longrightarrow> f ` set ws \<inter> fst ` set acc = {} \<Longrightarrow>
     fold (\<lambda>(w, val) weight_dict. AList.update (f w) val weight_dict) (zip ws vals) acc
       = acc @ zip (map f ws) vals"
proof (induction ws arbitrary: vals acc)
  case Nil
  then show ?case by simp
next
  case (Cons w ws)
  show ?case
  proof (cases vals)
    case Nil
    then show ?thesis by simp
  next
    case (Cons v vs)
    from Cons.prems(2) have fresh: "f w \<notin> fst ` set acc" by auto
    from Cons.prems have d: "distinct (map f ws)"
      and disj: "f ` set ws \<inter> fst ` set (acc @ [(f w, v)]) = {}" by auto
    show ?thesis
      unfolding Cons using Cons.IH[OF d disj, of vs] by (simp add: update_fresh[OF fresh])
  qed
qed

text \<open>
  C4. When the framework's placeholder and assign calls leave the collections alone and
  \<open>create_weight_setter_ops\<close> returns, every trainable variable \<open>w\<close> has a placeholder
  defaulting to \<open>w\<close> registered under \<open>'weight_input_var:' + w.name\<close> and an op assigning
  that placeholder to \<open>w\<close> under \<open>'set_weight_op:' + w.name\<close>. The setter of \<open>weights\<close>,
  when both keys are found for every name of the mapping, makes one session run of the
  list of the set-weight ops of the names with a feed dict built from the placeholders
  of the names, in which each placeholder holds the value of its name when the
  placeholders are distinct; when a key of some name is missing it raises and runs
  nothing. \<open>set_weights\<close> is the setter applied to the variables' names zipped with the
  values.
\<close>

theorem weight_setter_plumbing:
  "((\<forall>w wi g. collections (snd (tf_op fw (tf_placeholder_with_default w) g)) = collections g \<and>
               collections (snd (tf_op fw (tf_assign w wi) g)) = collections g) \<and>
    create_weight_setter_ops fw m = (Inr (), m') \<longrightarrow>
      (\<forall>w \<in> set (weights m). \<exists>w_input assign g1 g2.
         fst (tf_op fw (tf_placeholder_with_default w) g1) = Inr w_input \<and>
         fst (tf_op fw (tf_assign w w_input) g2) = Inr assign \<and>
         Graph_getitem (M_G m') (Name (''weight_input_var:'' @ node_name fw w)) = Inr (Obj w_input) \<and>
         Graph_getitem (M_G m') (Name (''set_weight_op:'' @ node_name fw w)) = Inr (Obj assign))) \<and>
   ((\<forall>(n, v) \<in> set ws.
        Graph_getitem (M_G m) (Name (''weight_input_var:'' @ n)) = Inr (Obj (ph n)) \<and>
        Graph_getitem (M_G m) (Name (''set_weight_op:'' @ n)) = Inr (Obj (opn n))) \<longrightarrow>
      weights_setter fw ws m =
        (case session_run fw (PyList (map (\<lambda>n. Obj (opn n)) (map fst ws)))
                (fold (\<lambda>(n, v) d. d(ph n \<mapsto> v)) ws Map.empty)
                (G_graph (M_G m)) (G_session (M_G m)) of
           (r, s') \<Rightarrow> (case r of Inl x \<Rightarrow> Inl (Framework x) | Inr _ \<Rightarrow> Inr (),
                       m\<lparr>M_G := (M_G m)\<lparr>G_session := s'\<rparr>\<rparr>)) \<and>
      (distinct (map (\<lambda>(n, v). ph n) ws) \<longrightarrow>
         (\<forall>(n, v) \<in> set ws. fold (\<lambda>(n, v) d. d(ph n \<mapsto> v)) ws Map.empty (ph n) = Some v))) \<and>
   ((\<exists>(n, v) \<in> set ws. \<not> Graph_contains (M_G m) (''weight_input_var:'' @ n) \<or>
                          \<not> Graph_contains (M_G m) (''set_weight_op:'' @ n)) \<longrightarrow>
      (\<exists>e. weights_setter fw ws m = (Inl e, m))) \<and>
   (distinct (get_weight_names fw m) \<longrightarrow>
      set_weights fw vals m = weights_setter fw (zip (get_weight_names fw m) vals) m)"
proof (intro conjI impI)
  assume a: "(\<forall>w wi g. collections (snd (tf_op fw (tf_placeholder_with_default w) g)) = collections g \<and>
               collections (snd (tf_op fw (tf_assign w wi) g)) = collections g) \<and>
    create_weight_setter_ops fw m = (Inr (), m')"
  then have keeps: "\<And>w wi g. collections (snd (tf_op fw (tf_placeholder_with_default w) g)) = collections g
                     \<and> collections (snd (tf_op fw (tf_assign w wi) g)) = collections g"
    and run: "weight_setter_ops_for fw (weights m) m = (Inr (), m')"
    by (simp_all add: create_weight_setter_ops_def)
  from weight_setter_ops_for_registers[of fw "weights m" m m', OF keeps run]
  have reg: "\<forall>w \<in> set (weights m). \<exists>w_input assign g1 g2.
        fst (tf_op fw (tf_placeholder_with_default w) g1) = Inr w_input \<and>
        fst (tf_op fw (tf_assign w w_input) g2) = Inr assign \<and>
        collections (G_graph (M_G m')) (''weight_input_var:'' @ node_name fw w) = Some [w_input] \<and>
        collections (G_graph (M_G m')) (''set_weight_op:'' @ node_name fw w) = Some [assign]"
    by blast
  show "\<forall>w \<in> set (weights m). \<exists>w_input assign g1 g2.
         fst (tf_op fw (tf_placeholder_with_default w) g1) = Inr w_input \<and>
         fst (tf_op fw (tf_assign w w_input) g2) = Inr assign \<and>
         Graph_getitem (M_G m') (Name (''weight_input_var:'' @ node_name fw w)) = Inr (Obj w_input) \<and>
         Graph_getitem (M_G m') (Name (''set_weight_op:'' @ node_name fw w)) = Inr (Obj assign)"
  proof
    fix w assume "w \<in> set (weights m)"
    with reg obtain w_input assign g1 g2 where
      1: "fst (tf_op fw (tf_placeholder_with_default w) g1) = Inr w_input"
      and 2: "fst (tf_op fw (tf_assign w w_input) g2) = Inr assign"
      and 3: "collections (G_graph (M_G m')) (''weight_input_var:'' @ node_name fw w) = Some [w_input]"
      and 4: "collections (G_graph (M_G m')) (''set_weight_op:'' @ node_name fw w) = Some [assign]"
      by blast
    show "\<exists>w_input assign g1 g2.
         fst (tf_op fw (tf_placeholder_with_default w) g1) = Inr w_input \<and>
         fst (tf_op fw (tf_assign w w_input) g2) = Inr assign \<and>
         Graph_getitem (M_G m') (Name (''weight_input_var:'' @ node_name fw w)) = Inr (Obj w_input) \<and>
         Graph_getitem (M_G m') (Name (''set_weight_op:'' @ node_name fw w)) = Inr (Obj assign)"
      by (rule exI[of _ w_input], rule exI[of _ assign], rule exI[of _ g1], rule exI[of _ g2])
         (intro conjI 1 2 getitem_registered[OF 3] getitem_registered[OF 4])
  qed
next
  assume found: "\<forall>(n, v) \<in> set ws.
        Graph_getitem (M_G m) (Name (''weight_input_var:'' @ n)) = Inr (Obj (ph n)) \<and>
        Graph_getitem (M_G m) (Name (''set_weight_op:'' @ n)) = Inr (Obj (opn n))"
  then have f1: "\<forall>(n, v) \<in> set ws. Graph_getitem (M_G m) (Name (''weight_input_var:'' @ n)) = Inr (Obj (ph n))"
    and f2: "\<forall>n \<in> set (map fst ws). Graph_getitem (M_G m) (Name (''set_weight_op:'' @ n)) = Inr (Obj (opn n))"
    by (force simp del: Graph_getitem.simps)+
  show "weights_setter fw ws m =
        (case session_run fw (PyList (map (\<lambda>n. Obj (opn n)) (map fst ws)))
                (fold (\<lambda>(n, v) d. d(ph n \<mapsto> v)) ws Map.empty)
                (G_graph (M_G m)) (G_session (M_G m)) of
           (r, s') \<Rightarrow> (case r of Inl x \<Rightarrow> Inl (Framework x) | Inr _ \<Rightarrow> Inr (),
                       m\<lparr>M_G := (M_G m)\<lparr>G_session := s'\<rparr>\<rparr>))"
    using weights_feed_dict_found[of ws "M_G m" ph Map.empty, OF f1]
      set_ops_found[of "map fst ws" "M_G m" opn, OF f2]
    by (simp add: weights_setter_def andthen_def pure_def return_def on_G_def Graph_call_def
             propagate_def split: prod.splits sum.splits)
next
  assume "\<forall>(n, v) \<in> set ws.
        Graph_getitem (M_G m) (Name (''weight_input_var:'' @ n)) = Inr (Obj (ph n)) \<and>
        Graph_getitem (M_G m) (Name (''set_weight_op:'' @ n)) = Inr (Obj (opn n))"
    and d: "distinct (map (\<lambda>(n, v). ph n) ws)"
  show "\<forall>(n, v) \<in> set ws. fold (\<lambda>(n, v) d. d(ph n \<mapsto> v)) ws Map.empty (ph n) = Some v"
    using fold_feed_value[OF d] by blast
next
  assume miss: "\<exists>(n, v) \<in> set ws. \<not> Graph_contains (M_G m) (''weight_input_var:'' @ n) \<or>
                          \<not> Graph_contains (M_G m) (''set_weight_op:'' @ n)"
  show "\<exists>e. weights_setter fw ws m = (Inl e, m)"
  proof (cases "weights_feed_dict (M_G m) Map.empty ws")
    case (Inl e)
    then show ?thesis by (simp add: weights_setter_def andthen_def pure_def)
  next
    case (Inr fd)
    with weights_feed_dict_missing[of ws "M_G m" Map.empty]
    have "\<not> (\<exists>(n, v) \<in> set ws. \<not> Graph_contains (M_G m) (''weight_input_var:'' @ n))"
      by auto
    with miss obtain n v where nv: "(n, v) \<in> set ws"
      and "\<not> Graph_contains (M_G m) (''set_weight_op:'' @ n)" by blast
    then have "\<exists>e. Graph_getitem (M_G m) (Name (''set_weight_op:'' @ n)) = Inl e" by simp
    with nv have "\<exists>k \<in> set (map (\<lambda>n. Name (''set_weight_op:'' @ n)) (map fst ws)).
                    \<exists>e. Graph_getitem (M_G m) k = Inl e"
      by (force simp del: Graph_getitem.simps)
    then obtain e where "getitem_each (M_G m) (map (\<lambda>n. Name (''set_weight_op:'' @ n)) (map fst ws)) = Inl e"
      using getitem_each_fails by blast
    with Inr show ?thesis by (simp add: weights_setter_def andthen_def pure_def)
  qed
next
  assume d: "distinct (get_weight_names fw m)"
  have "fold (\<lambda>(w, val) weight_dict. AList.update (node_name fw w) val weight_dict)
             (zip (weights m) vals) [] = zip (get_weight_names fw m) vals"
    using weight_dict_zip[of "node_name fw" "weights m" "[]" vals] d
    by (simp add: get_weight_names_def)
  then show "set_weights fw vals m = weights_setter fw (zip (get_weight_names fw m) vals) m"
    by (simp add: set_weights_def)
qed

section \<open>Where exceptions come from\<close>




lemma andthen_Inl:
  "andthen f k m = (Inl e, m') \<longleftrightarrow>
     f m = (Inl e, m') \<or> (\<exists>x m1. f m = (Inr x, m1) \<and> k x m1 = (Inl e, m'))"
  by (auto simp: andthen_def split: prod.splits sum.splits)

lemma pure_Inl: "pure r m = (Inl e, m') \<longleftrightarrow> r = Inl e \<and> m' = m"
  by (auto simp: pure_def)

lemma on_G_Inl:
  "on_G f m = (Inl e, m') \<longleftrightarrow> (\<exists>G'. f (M_G m) = (Inl e, G') \<and> m' = m\<lparr>M_G := G'\<rparr>)"
  by (auto simp: on_G_def split: prod.splits)

lemma assert_Inl:
  "(case v of None \<Rightarrow> Inl AssertionError | Some _ \<Rightarrow> Inr ()) = Inl e \<longleftrightarrow> e = AssertionError \<and> v = None"
  by (auto split: option.splits)





section \<open>Key uniqueness\<close>

text \<open>The definitions that running the examples unfolds.\<close>

lemmas run_defs = andthen_def return_def raise_def pure_def on_G_def on_graph_def propagate_def tf_def
  Graph_setitem_def Graph_contains_def add_to_collection_def get_collection_def
  example_fw_def example_op_def example_run_def fully_connected_def adam_variables_def
  Graph_init_def tf_Graph_def Graph_enter_def Graph_exit_def Graph_call_def
  GLOBAL_VARIABLES_def TRAINABLE_VARIABLES_def finalize_def
  Model_new_def Model_init_def with_G_def create_weight_setter_ops_def weights_def
  add_input_def add_output_def add_output_node_def first_of_def get_env_action_space_dimension_def
  optimizer_setter_def set_loss_def set_action_def
  pg_build_graph_def pg_discrete_def pg_continuous_def policy_gradient_model_factory_def
  discrete_env_def continuous_env_def Let_def

lemma setitem_frame:
  "Graph_setitem name node G = (Inr (), G') \<Longrightarrow>
     collections (G_graph G') name = Some [node] \<and>
     (\<forall>k. k \<noteq> name \<longrightarrow> collections (G_graph G') k = collections (G_graph G) k)"
  unfolding setitem_Inr by simp

lemma setitem_keeps_key:
  "collections (G_graph G) k = Some [n] \<Longrightarrow>
     collections (G_graph (snd (Graph_setitem name node G))) k = Some [n]"
  by (auto simp: Graph_setitem_def on_graph_def propagate_def add_to_collection_def Graph_contains_def)

text \<open>
  C10, as amended. \<open>Graph.__setitem__\<close> on a registered name raises \<open>KeyError\<close> and
  leaves the graph as it was; when it returns, the new name holds exactly the one node
  and no other key has changed. So \<open>Graph.__setitem__\<close> preserves the invariant that
  every registered key holds exactly one node, which holds of a new \<open>Graph\<close>; a key that
  holds exactly one node keeps it through \<open>Graph.__setitem__\<close> and
  \<open>Graph.__getitem__\<close> returns it; and when the invariant holds, the first element that
  \<open>Graph.__getitem__\<close> selects is the only one, for every registered key.
\<close>

theorem setitem_key_uniqueness:
  "(Graph_contains (G :: ('n, 's) Graph) name \<longrightarrow>
      Graph_setitem name node G = (Inl (KeyError (already_msg name)), G)) \<and>
   (Graph_setitem name node G = (Inr (), G') \<longrightarrow>
      collections (G_graph G') name = Some [node] \<and>
      (\<forall>k. k \<noteq> name \<longrightarrow> collections (G_graph G') k = collections (G_graph G) k)) \<and>
   (one_node_per_key G \<longrightarrow> one_node_per_key (snd (Graph_setitem name node G))) \<and>
   one_node_per_key (Graph_init s0 :: ('n, 's) Graph) \<and>
   (collections (G_graph G) k = Some [n] \<longrightarrow>
      Graph_getitem G (Name k) = Inr (Obj n) \<and>
      collections (G_graph (snd (Graph_setitem name node G))) k = Some [n]) \<and>
   (one_node_per_key G \<and> Graph_contains G k \<longrightarrow>
      (\<exists>n. get_collection (G_graph G) k = [n] \<and> Graph_getitem G (Name k) = Inr (Obj n)))"
proof -
  have 1: "Graph_contains G name \<longrightarrow>
      Graph_setitem name node G = (Inl (KeyError (already_msg name)), G)"
    by (simp add: Graph_setitem_def)
  have 2: "Graph_setitem name node G = (Inr (), G') \<longrightarrow>
      collections (G_graph G') name = Some [node] \<and>
      (\<forall>k. k \<noteq> name \<longrightarrow> collections (G_graph G') k = collections (G_graph G) k)"
    by (rule impI) (rule setitem_frame)
  have 3: "one_node_per_key G \<longrightarrow> one_node_per_key (snd (Graph_setitem name node G))"
    by (rule impI) (rule setitem_inv)
  have 4: "one_node_per_key (Graph_init s0 :: ('n, 's) Graph)"
    by (simp add: one_node_per_key_def Graph_init_def tf_Graph_def)
  have 5: "collections (G_graph G) k = Some [n] \<longrightarrow>
      Graph_getitem G (Name k) = Inr (Obj n) \<and>
      collections (G_graph (snd (Graph_setitem name node G))) k = Some [n]"
    using getitem_registered[of G k n "[]"] setitem_keeps_key[of G k n name node] by blast
  have 6: "one_node_per_key G \<and> Graph_contains G k \<longrightarrow>
      (\<exists>n. get_collection (G_graph G) k = [n] \<and> Graph_getitem G (Name k) = Inr (Obj n))"
  proof
    assume "one_node_per_key G \<and> Graph_contains G k"
    then obtain n where "collections (G_graph G) k = Some [n]" and "Graph_contains G k"
      using registered_one_node by blast
    then show "\<exists>n. get_collection (G_graph G) k = [n] \<and> Graph_getitem G (Name k) = Inr (Obj n)"
      by (simp add: get_collection_def)
  qed
  show ?thesis by (intro conjI 1 2 3 4 5 6)
qed

theorem setitem_key_uniqueness_witness:
  "one_node_per_key two_keys \<and> Graph_contains two_keys ''a'' \<and>
   Graph_setitem ''a'' 5 two_keys = (Inl (KeyError (already_msg ''a'')), two_keys) \<and>
   one_node_per_key (snd (Graph_setitem ''c'' 3 two_keys)) \<and>
   collections (G_graph two_keys) ''a'' = Some [1] \<and>
   Graph_getitem two_keys (Name ''a'') = Inr (Obj 1) \<and>
   collections (G_graph (snd (Graph_setitem ''c'' 3 two_keys))) ''a'' = Some [1] \<and>
   collections (G_graph (snd (Graph_setitem ''c'' 3 two_keys))) ''c'' = Some [3]"
proof -
  have inv: "one_node_per_key two_keys" by (simp add: one_node_per_key_def two_keys_collections)
  have reg: "Graph_contains two_keys ''a''" by (simp add: Graph_contains_def two_keys_collections)
  have col: "collections (G_graph two_keys) ''a'' = Some [1]" by (simp add: two_keys_collections)
  have ok: "Graph_setitem ''c'' 3 two_keys = (Inr (), snd (Graph_setitem ''c'' 3 two_keys))"
    by (simp add: Graph_setitem_def on_graph_def propagate_def add_to_collection_def Graph_contains_def
          two_keys_collections)
       (simp add: two_keys_def Graph_setitem_def on_graph_def propagate_def add_to_collection_def
          Graph_contains_def Graph_init_def tf_Graph_def)
  from setitem_key_uniqueness[of two_keys "''a''" 5] reg
  have a: "Graph_setitem ''a'' 5 two_keys = (Inl (KeyError (already_msg ''a'')), two_keys)" by blast
  from setitem_key_uniqueness[of two_keys "''c''" 3 _ _ "''a''" 1] col
  have b: "Graph_getitem two_keys (Name ''a'') = Inr (Obj 1)"
    and b': "collections (G_graph (snd (Graph_setitem ''c'' 3 two_keys))) ''a'' = Some [1]" by blast+
  from setitem_key_uniqueness[of two_keys "''c''" 3] inv
  have c: "one_node_per_key (snd (Graph_setitem ''c'' 3 two_keys))" by blast
  from setitem_key_uniqueness[of two_keys "''c''" 3 "snd (Graph_setitem ''c'' 3 two_keys)"] ok
  have d: "collections (G_graph (snd (Graph_setitem ''c'' 3 two_keys))) ''c'' = Some [3]" by blast
  from inv reg a b b' c col d show ?thesis by blast
qed

lemma with_input_collections:
  "collections (G_graph (M_G with_input)) = [''input:'' \<mapsto> [Op (tf_placeholder tf_float32 [None, Some 4] None)]]"
  by (simp add: with_input_def run_defs)

lemma with_output_collections:
  "collections (G_graph (M_G with_output)) =
     [''input:'' \<mapsto> [Op (tf_placeholder tf_float32 [None, Some 4] None)],
      ''variables'' \<mapsto> [Var ''fully_connected/weights:0'', Var ''fully_connected/biases:0''],
      ''model_variables'' \<mapsto> [Var ''fully_connected/weights:0'', Var ''fully_connected/biases:0''],
      ''trainable_variables'' \<mapsto> [Var ''fully_connected/weights:0'', Var ''fully_connected/biases:0''],
      ''update_ops'' \<mapsto> [],
      ''output:'' \<mapsto> [Layer (Some tf_nn_softmax) (Op (tf_placeholder tf_float32 [None, Some 4] None)) 2]]"
  by (simp add: with_output_def with_input_def run_defs)

text \<open>
  C10 as stated fails: not every operation preserves the invariant. The registry is the
  framework's table of collections, and the network that \<open>Model.add_output\<close> calls adds
  its variables to it: from a graph in which every registered key holds one node,
  \<open>add_output\<close> returns with \<open>variables\<close> registered with two nodes and \<open>update_ops\<close>
  registered with none, for which \<open>Graph.__getitem__\<close> raises \<open>IndexError\<close>.
\<close>

theorem add_output_breaks_key_uniqueness:
  "one_node_per_key (M_G with_input) \<and>
   fst (add_output (fully_connected (Some tf_nn_softmax)) None '''' with_input)
     = Inr (Layer (Some tf_nn_softmax) (Op (tf_placeholder tf_float32 [None, Some 4] None)) 2) \<and>
   \<not> one_node_per_key (M_G with_output) \<and>
   Graph_contains (M_G with_output) ''variables'' \<and>
   get_collection (G_graph (M_G with_output)) ''variables''
     = [Var ''fully_connected/weights:0'', Var ''fully_connected/biases:0''] \<and>
   Graph_contains (M_G with_output) ''update_ops'' \<and>
   Graph_getitem (M_G with_output) (Name ''update_ops'') = Inl IndexError"
proof -
  have 1: "one_node_per_key (M_G with_input)"
    by (simp add: one_node_per_key_def with_input_collections)
  have 2: "fst (add_output (fully_connected (Some tf_nn_softmax)) None '''' with_input)
     = Inr (Layer (Some tf_nn_softmax) (Op (tf_placeholder tf_float32 [None, Some 4] None)) 2)"
    by (simp add: with_input_def run_defs)
  have 3: "\<not> one_node_per_key (M_G with_output)"
  proof
    assume "one_node_per_key (M_G with_output)"
    then have "case collections (G_graph (M_G with_output)) ''variables'' of
                 None \<Rightarrow> True | Some ns \<Rightarrow> length ns = 1"
      unfolding one_node_per_key_def by blast
    then show False by (simp add: with_output_collections)
  qed
  have 4: "Graph_contains (M_G with_output) ''variables''"
    "get_collection (G_graph (M_G with_output)) ''variables''
     = [Var ''fully_connected/weights:0'', Var ''fully_connected/biases:0'']"
    "Graph_contains (M_G with_output) ''update_ops''"
    "Graph_getitem (M_G with_output) (Name ''update_ops'') = Inl IndexError"
    by (simp_all add: Graph_contains_def get_collection_def with_output_collections)
  from 1 2 3 4 show ?thesis by blast
qed

section \<open>The theorems at the examples\<close>


theorem add_output_passthrough_witness:
  "M_input_node with_input = Some (Op (tf_placeholder tf_float32 [None, Some 4] None)) \<and>
   action_space_n (M_env with_input) = Some 2 \<and>
   (\<exists>m'. add_output (fully_connected None) None ''mean'' with_input
            = (Inr (Layer None (Op (tf_placeholder tf_float32 [None, Some 4] None)) 2), m') \<and>
         Graph_getitem (M_G m') (Name ''output:mean'')
            = Inr (Obj (Layer None (Op (tf_placeholder tf_float32 [None, Some 4] None)) 2)))"
proof -
  let ?node = "Layer None (Op (tf_placeholder tf_float32 [None, Some 4] None)) 2"
  let ?r = "add_output (fully_connected None) None ''mean'' with_input"
  have i: "M_input_node with_input = Some (Op (tf_placeholder tf_float32 [None, Some 4] None))"
    and n: "action_space_n (M_env with_input) = Some 2"
    by (simp_all add: with_input_def run_defs)
  have "fst ?r = Inr ?node"
    by (simp add: with_input_def run_defs)
  then have r: "?r = (Inr ?node, snd ?r)"
    by (metis prod.collapse)
  with add_output_passthrough[of "fully_connected None" None "''mean''" with_input ?node "snd ?r"]
  have "Graph_getitem (M_G (snd ?r)) (Name (''output:'' @ ''mean'')) = Inr (Obj ?node)"
    by blast
  then have g: "Graph_getitem (M_G (snd ?r)) (Name ''output:mean'') = Inr (Obj ?node)"
    by simp
  from r g have "\<exists>m'. ?r = (Inr ?node, m') \<and> Graph_getitem (M_G m') (Name ''output:mean'') = Inr (Obj ?node)"
    by blast
  with i n show ?thesis by blast
qed


lemma discrete_model_built:
  "Model_init example_fw 0 discrete_env (pg_build_graph example_fw fully_connected ''discrete'' (1 / 100))
     pg_build_update_feed_dict = Inr discrete_model"
proof -
  have "\<exists>M. policy_gradient_model_factory example_fw 0 discrete_env fully_connected (1 / 100) ''discrete''
          = Inr M"
    by (simp add: run_defs)
  then show ?thesis
    by (auto simp: discrete_model_def policy_gradient_model_factory_def)
qed

theorem update_passthrough_witness:
  "fst (update example_fw
          [\<lparr>nd_shape = [4], nd_elems = [1, 2, 3, 4]\<rparr>, \<lparr>nd_shape = [], nd_elems = [5]\<rparr>,
           \<lparr>nd_shape = [], nd_elems = [1]\<rparr>] discrete_model)
     = Inr (Obj \<lparr>nd_shape = [1, 2], nd_elems = [0, 0]\<rparr>) \<and>
   (\<exists>op. M_optimizer_op discrete_model = Some op) \<and>
   build_update_feed_dict discrete_model = pg_build_update_feed_dict"
proof -
  let ?args = "[\<lparr>nd_shape = [4], nd_elems = [1, 2, 3, 4::nat]\<rparr>, \<lparr>nd_shape = [], nd_elems = [5]\<rparr>,
           \<lparr>nd_shape = [], nd_elems = [1]\<rparr>]"
  let ?loss = "Obj \<lparr>nd_shape = [1, 2], nd_elems = [0, 0::nat]\<rparr>"
  let ?r = "update example_fw ?args discrete_model"
  have f: "fst ?r = Inr ?loss"
    by (simp add: update_def discrete_model_def pg_build_update_feed_dict_def get_attr_def
          expand_dims0_def Model.truncate_def Model.extend_def Built_Model.fields_def run_defs)
  then have r: "?r = (Inr ?loss, snd ?r)"
    by (metis prod.collapse)
  note t = update_passthrough[of discrete_model example_fw ?args ?loss "snd ?r" 0 discrete_env
             "pg_build_graph example_fw fully_connected ''discrete'' (1 / 100)" pg_build_update_feed_dict]
  from t r have 1: "\<exists>op. M_optimizer_op discrete_model = Some op" by blast
  from t discrete_model_built have 2: "build_update_feed_dict discrete_model = pg_build_update_feed_dict"
    by blast
  from f 1 2 show ?thesis by blast
qed


theorem weight_setter_plumbing_witness:
  "weights with_output = [Var ''fully_connected/weights:0'', Var ''fully_connected/biases:0''] \<and>
   fst (create_weight_setter_ops example_fw with_output) = Inr () \<and>
   (\<exists>w_input assign g1 g2.
       fst (tf_op example_fw (tf_placeholder_with_default (Var ''fully_connected/weights:0'')) g1)
         = Inr w_input \<and>
       fst (tf_op example_fw (tf_assign (Var ''fully_connected/weights:0'') w_input) g2) = Inr assign \<and>
       Graph_getitem (M_G (snd (create_weight_setter_ops example_fw with_output)))
         (Name ''weight_input_var:fully_connected/weights:0'') = Inr (Obj w_input) \<and>
       Graph_getitem (M_G (snd (create_weight_setter_ops example_fw with_output)))
         (Name ''set_weight_op:fully_connected/weights:0'') = Inr (Obj assign)) \<and>
   (\<exists>w_input assign g1 g2.
       fst (tf_op example_fw (tf_placeholder_with_default (Var ''fully_connected/biases:0'')) g1)
         = Inr w_input \<and>
       fst (tf_op example_fw (tf_assign (Var ''fully_connected/biases:0'') w_input) g2) = Inr assign \<and>
       Graph_getitem (M_G (snd (create_weight_setter_ops example_fw with_output)))
         (Name ''weight_input_var:fully_connected/biases:0'') = Inr (Obj w_input) \<and>
       Graph_getitem (M_G (snd (create_weight_setter_ops example_fw with_output)))
         (Name ''set_weight_op:fully_connected/biases:0'') = Inr (Obj assign)) \<and>
   weights_setter example_fw [(''fully_connected/weights:0'', \<lparr>nd_shape = [4, 2], nd_elems = [1, 2, 3, 4, 5, 6, 7, 8]\<rparr>)]
       discrete_model
     = (Inr (), discrete_model\<lparr>M_G := (M_G discrete_model)\<lparr>G_session := 2\<rparr>\<rparr>)"
proof -
  let ?r = "create_weight_setter_ops example_fw with_output"
  have keeps: "\<forall>w wi g. collections (snd (tf_op example_fw (tf_placeholder_with_default w) g)) = collections g \<and>
               collections (snd (tf_op example_fw (tf_assign w wi) g)) = collections g"
    by (simp add: example_fw_def example_op_def)
  have w: "weights with_output = [Var ''fully_connected/weights:0'', Var ''fully_connected/biases:0'']"
    by (simp add: weights_def TRAINABLE_VARIABLES_def get_collection_def with_output_collections)
  have f: "fst ?r = Inr ()"
    by (simp add: create_weight_setter_ops_def w)
       (simp add: with_output_def with_input_def run_defs)
  then have r: "?r = (Inr (), snd ?r)"
    by (metis prod.collapse)
  let ?ph = "\<lambda>n. Op (tf_placeholder_with_default (Var n))"
  let ?opn = "\<lambda>n. Op (tf_assign (Var n) (Op (tf_placeholder_with_default (Var n))))"
  let ?ws = "[(''fully_connected/weights:0'', \<lparr>nd_shape = [4, 2], nd_elems = [1, 2, 3, 4, 5, 6, 7, 8::nat]\<rparr>)]"
  note t1 = weight_setter_plumbing[where fw = example_fw and m = with_output and m' = "snd ?r"]
  note t = weight_setter_plumbing[where fw = example_fw and m = discrete_model and ws = ?ws
             and ph = ?ph and opn = ?opn]
  from t1 keeps r have 1: "\<forall>w \<in> set (weights with_output). \<exists>w_input assign g1 g2.
       fst (tf_op example_fw (tf_placeholder_with_default w) g1) = Inr w_input \<and>
       fst (tf_op example_fw (tf_assign w w_input) g2) = Inr assign \<and>
       Graph_getitem (M_G (snd ?r)) (Name (''weight_input_var:'' @ node_name example_fw w)) = Inr (Obj w_input) \<and>
       Graph_getitem (M_G (snd ?r)) (Name (''set_weight_op:'' @ node_name example_fw w)) = Inr (Obj assign)"
    by blast
  have found: "\<forall>(n, v) \<in> set ?ws.
        Graph_getitem (M_G discrete_model) (Name (''weight_input_var:'' @ n)) = Inr (Obj (?ph n)) \<and>
        Graph_getitem (M_G discrete_model) (Name (''set_weight_op:'' @ n)) = Inr (Obj (?opn n))"
    by (simp add: discrete_model_def Model.extend_def Built_Model.fields_def run_defs)
  from t found have "weights_setter example_fw ?ws discrete_model =
        (case session_run example_fw (PyList (map (\<lambda>n. Obj (?opn n)) (map fst ?ws)))
                (fold (\<lambda>(n, v) d. d(?ph n \<mapsto> v)) ?ws Map.empty)
                (G_graph (M_G discrete_model)) (G_session (M_G discrete_model)) of
           (r, s') \<Rightarrow> (case r of Inl x \<Rightarrow> Inl (Framework x) | Inr _ \<Rightarrow> Inr (),
                       discrete_model\<lparr>M_G := (M_G discrete_model)\<lparr>G_session := s'\<rparr>\<rparr>))"
    by blast
  moreover have "G_session (M_G discrete_model) = 1"
    by (simp add: discrete_model_def Model.extend_def Built_Model.fields_def run_defs)
  ultimately have 2: "weights_setter example_fw ?ws discrete_model
     = (Inr (), discrete_model\<lparr>M_G := (M_G discrete_model)\<lparr>G_session := 2\<rparr>\<rparr>)"
    by (simp add: example_fw_def example_run_def)
  have mem: "Var ''fully_connected/weights:0'' \<in> set (weights with_output)"
    "Var ''fully_connected/biases:0'' \<in> set (weights with_output)"
    by (simp_all add: w)
  have nm: "node_name example_fw (Var ''fully_connected/weights:0'') = ''fully_connected/weights:0''"
    "node_name example_fw (Var ''fully_connected/biases:0'') = ''fully_connected/biases:0''"
    by (simp_all add: example_fw_def)
  from bspec[OF 1 mem(1)] have 3: "\<exists>w_input assign g1 g2.
       fst (tf_op example_fw (tf_placeholder_with_default (Var ''fully_connected/weights:0'')) g1)
         = Inr w_input \<and>
       fst (tf_op example_fw (tf_assign (Var ''fully_connected/weights:0'') w_input) g2) = Inr assign \<and>
       Graph_getitem (M_G (snd ?r)) (Name ''weight_input_var:fully_connected/weights:0'') = Inr (Obj w_input) \<and>
       Graph_getitem (M_G (snd ?r)) (Name ''set_weight_op:fully_connected/weights:0'') = Inr (Obj assign)"
    unfolding nm by (simp only: append.simps)
  from bspec[OF 1 mem(2)] have 4: "\<exists>w_input assign g1 g2.
       fst (tf_op example_fw (tf_placeholder_with_default (Var ''fully_connected/biases:0'')) g1)
         = Inr w_input \<and>
       fst (tf_op example_fw (tf_assign (Var ''fully_connected/biases:0'') w_input) g2) = Inr assign \<and>
       Graph_getitem (M_G (snd ?r)) (Name ''weight_input_var:fully_connected/biases:0'') = Inr (Obj w_input) \<and>
       Graph_getitem (M_G (snd ?r)) (Name ''set_weight_op:fully_connected/biases:0'') = Inr (Obj assign)"
    unfolding nm by (simp only: append.simps)
  from w f 3 4 2 show ?thesis by blast
qed

section \<open>The policy-gradient factory\<close>

text \<open>Which statements can raise a \<open>ValueError\<close> of the wrapper.\<close>

lemma nv_andthen:
  "andthen f k m = (Inl (ValueError msg), m') \<Longrightarrow>
     (\<And>m m'. f m = (Inl (ValueError msg), m') \<Longrightarrow> P) \<Longrightarrow>
     (\<And>x m m'. k x m = (Inl (ValueError msg), m') \<Longrightarrow> P) \<Longrightarrow> P"
  unfolding andthen_Inl by blast

lemma nv_tf: "tf fw c m = (Inl (ValueError msg), m') \<Longrightarrow> P"
  by (auto simp: tf_def on_G_def on_graph_def propagate_def split: prod.splits sum.splits)

lemma nv_network: "on_G (on_graph f) m = (Inl (ValueError msg), m') \<Longrightarrow> P"
  by (auto simp: on_G_def on_graph_def propagate_def split: prod.splits sum.splits)

lemma nv_setitem: "on_G (Graph_setitem name node) m = (Inl (ValueError msg), m') \<Longrightarrow> P"
  by (auto simp: on_G_def Graph_setitem_def on_graph_def propagate_def split: prod.splits sum.splits if_splits)

lemma nv_return: "return x m = (Inl (ValueError msg), m') \<Longrightarrow> P"
  by (simp add: return_def)

lemma nv_set_loss: "set_loss x m = (Inl (ValueError msg), m') \<Longrightarrow> P"
  by (simp add: set_loss_def return_def)

lemma nv_set_action: "set_action x m = (Inl (ValueError msg), m') \<Longrightarrow> P"
  by (simp add: set_action_def return_def)

lemma nv_pure: "pure r m = (Inl (ValueError msg), m') \<Longrightarrow> (r = Inl (ValueError msg) \<Longrightarrow> P) \<Longrightarrow> P"
  by (simp add: pure_def)

lemma first_of_no_ValueError: "first_of a v \<noteq> Inl (ValueError msg)"
  by (auto simp: first_of_def split: option.splits list.splits)

lemmas nv_steps = nv_andthen nv_tf nv_network nv_setitem nv_return nv_set_loss nv_set_action nv_pure

lemma nv_add_input: "add_input fw name dtype shape m = (Inl (ValueError msg), m') \<Longrightarrow> P"
  unfolding add_input_def
  by (elim nv_steps) (auto simp: first_of_no_ValueError split: option.splits sum.splits)

lemma nv_add_output: "add_output network num_outputs name m = (Inl (ValueError msg), m') \<Longrightarrow> P"
  unfolding add_output_def
  by (elim nv_steps)
     (auto simp: get_env_action_space_dimension_def first_of_no_ValueError split: option.splits sum.splits)

lemma nv_add_output_node: "add_output_node node name m = (Inl (ValueError msg), m') \<Longrightarrow> P"
  unfolding add_output_node_def
  by (elim nv_steps)

lemma nv_optimizer_setter: "optimizer_setter fw opt m = (Inl (ValueError msg), m') \<Longrightarrow> P"
  unfolding optimizer_setter_def
  by (elim nv_steps) (auto split: option.splits)

lemma nv_pg_discrete: "pg_discrete fw network R m = (Inl (ValueError msg), m') \<Longrightarrow> P"
  unfolding pg_discrete_def
  by (elim nv_steps nv_add_output)

lemma nv_pg_continuous: "pg_continuous fw network R m = (Inl (ValueError msg), m') \<Longrightarrow> P"
  unfolding pg_continuous_def
  by (elim nv_steps nv_add_output nv_add_output_node) (auto simp: first_of_no_ValueError)

lemma nv_weight_setter_ops_for:
  "weight_setter_ops_for fw ws m = (Inl (ValueError msg), m') \<Longrightarrow> P"
proof (induction ws arbitrary: m m')
  case Nil
  then show ?case by (simp add: return_def)
next
  case (Cons w ws)
  from Cons.prems show ?case
    unfolding weight_setter_ops_for.simps
    by (elim nv_steps) (erule Cons.IH)
qed

lemma nv_on_graph: "on_graph f G = (Inl (ValueError msg), G') \<Longrightarrow> P"
  by (auto simp: on_graph_def propagate_def split: prod.splits sum.splits)

lemma nv_Graph_call: "Graph_call fw ops fd G = (Inl (ValueError msg), G') \<Longrightarrow> P"
  by (auto simp: Graph_call_def propagate_def split: prod.splits sum.splits)

lemma nv_Graph_exit: "Graph_exit fw G = (Inl (ValueError msg), G') \<Longrightarrow> P"
  unfolding Graph_exit_def
  by (elim nv_andthen nv_on_graph nv_Graph_call) simp

text \<open>When the factory raises its own \<open>ValueError\<close>.\<close>

lemma pg_build_graph_ValueError:
  "pg_build_graph fw network action_space lr m = (Inl (ValueError msg), m') \<Longrightarrow>
     action_space \<noteq> ''discrete'' \<and> action_space \<noteq> ''continuous'' \<and> msg = invalid_msg action_space"
  unfolding pg_build_graph_def
  by (elim nv_steps nv_add_input nv_optimizer_setter)
     (auto simp: raise_def split: if_splits elim: nv_pg_discrete nv_pg_continuous)

lemma pg_build_graph_invalid:
  "action_space \<noteq> ''discrete'' \<Longrightarrow> action_space \<noteq> ''continuous'' \<Longrightarrow>
     pg_build_graph fw network action_space lr m \<noteq> (Inr u, m')"
  unfolding pg_build_graph_def andthen_Inr
  by (simp add: raise_def)

lemma with_G_ValueError:
  "with_G fw body m = (Inl (ValueError msg), m') \<Longrightarrow>
     \<exists>m1. body (m\<lparr>M_G := Graph_enter (M_G m)\<rparr>) = (Inl (ValueError msg), m1)"
  unfolding with_G_def on_G_def
  by (auto split: prod.splits sum.splits elim: nv_Graph_exit)

lemma factory_ValueError:
  assumes "policy_gradient_model_factory fw s0 env network lr action_space = Inl (ValueError msg)"
  shows "action_space \<noteq> ''discrete'' \<and> action_space \<noteq> ''continuous'' \<and> msg = invalid_msg action_space"
proof -
  from assms obtain m' where
    "with_G fw (andthen (pg_build_graph fw network action_space lr) (\<lambda>_. create_weight_setter_ops fw))
       (Model_new s0 env) = (Inl (ValueError msg), m')"
    unfolding policy_gradient_model_factory_def Model_init_def
    by (auto split: prod.splits sum.splits)
  from with_G_ValueError[OF this] obtain m0 m1 where
    "andthen (pg_build_graph fw network action_space lr) (\<lambda>_. create_weight_setter_ops fw) m0
       = (Inl (ValueError msg), m1)"
    by blast
  then show ?thesis
  proof (rule nv_andthen)
    fix m m' assume "pg_build_graph fw network action_space lr m = (Inl (ValueError msg), m')"
    then show ?thesis by (rule pg_build_graph_ValueError)
  next
    fix x m m' assume "create_weight_setter_ops fw m = (Inl (ValueError msg), m')"
    then show ?thesis unfolding create_weight_setter_ops_def by (rule nv_weight_setter_ops_for)
  qed
qed

lemma factory_invalid_raises:
  assumes "action_space \<noteq> ''discrete''" "action_space \<noteq> ''continuous''"
  shows "\<exists>e. policy_gradient_model_factory fw s0 env network lr action_space = Inl e"
proof (cases "policy_gradient_model_factory fw s0 env network lr action_space")
  case (Inl e)
  then show ?thesis by blast
next
  case (Inr M)
  then obtain m1 where
    "pg_build_graph fw network action_space lr ((Model_new s0 env)\<lparr>M_G := Graph_enter (M_G (Model_new s0 env))\<rparr>)
       = (Inr (), m1)"
    unfolding policy_gradient_model_factory_def Model_init_Inr with_G_Inr andthen_Inr
    by fastforce
  with pg_build_graph_invalid[OF assms] show ?thesis by blast
qed

lemma factory_invalid_exact:
  assumes "action_space \<noteq> ''discrete''" "action_space \<noteq> ''continuous''"
    and i: "add_input fw '''' tf_float32 None ((Model_new s0 env)\<lparr>M_G := Graph_enter (Graph_init s0)\<rparr>)
              = (Inr input_node, m1)"
    and r: "tf fw (tf_placeholder tf_float32 [None] (Some ''return'')) (m1\<lparr>M_state := Some input_node\<rparr>)
              = (Inr R, m2)"
    and x: "Graph_exit fw (M_G m2) = (Inr (), G')"
  shows "policy_gradient_model_factory fw s0 env network lr action_space
           = Inl (ValueError (invalid_msg action_space))"
proof -
  have m0: "(Model_new s0 env)\<lparr>M_G := Graph_enter (M_G (Model_new s0 env))\<rparr>
              = (Model_new s0 env)\<lparr>M_G := Graph_enter (Graph_init s0)\<rparr>"
    by (simp add: Model_new_def)
  have b: "pg_build_graph fw network action_space lr ((Model_new s0 env)\<lparr>M_G := Graph_enter (Graph_init s0)\<rparr>)
             = (Inl (ValueError (invalid_msg action_space)), m2\<lparr>M_Return := Some R\<rparr>)"
    using assms(1,2) i r by (simp add: pg_build_graph_def andthen_def return_def raise_def)
  show ?thesis
    unfolding policy_gradient_model_factory_def Model_init_def with_G_def m0
    using b x by (simp add: andthen_def on_G_def)
qed

end
